theory Spec2Isabelle
  imports Complex_Main "HOL-Library.Char_ord" "HOL-Library.List_Lexorder"
begin

section \<open>Python values, exceptions and outcomes\<close>

text \<open>
  The repository is a set of Python classes that build command lines for ffmpeg, ffprobe
  and AtomicParsley, run them with \<^verbatim>\<open>subprocess.run\<close> and scan the text they print.
  Strings are \<^typ>\<open>string\<close> (one \<^typ>\<open>char\<close> per code point below 256).
  A call either returns a value, ends the interpreter with \<^verbatim>\<open>quit()\<close>, or lets
  an exception escape.
\<close>

datatype exc =
    CalledProcessError
  | OSError
  | FileNotFoundError
  | FileExistsError
  | NotADirectoryError
  | PermissionError
  | UnicodeDecodeError
  | IndexError
  | UnboundLocalError
  | AttributeError
  | KeyError
  | TypeError

datatype 'a outcome = Returned 'a | Quit | Raised exc

text \<open>
  A \<^verbatim>\<open>pathlib\<close> path is the list of its components; an element of a command line
  is a string or a path.
\<close>

type_synonym path = "string list"

datatype arg = Str string | Path path

text \<open>\<^verbatim>\<open>PurePath.name\<close> and \<^verbatim>\<open>joinpath\<close> with one name; the empty path has the name \<^verbatim>\<open>''\<close>.\<close>

definition name :: "path \<Rightarrow> string" where
  "name p = (if p = [] then [] else last p)"

definition joinpath :: "path \<Rightarrow> string \<Rightarrow> path" where
  "joinpath parent n = (if n = [] then parent else parent @ [n])"

section \<open>subprocess.run\<close>

text \<open>
  What a finished child process leaves behind: \<^verbatim>\<open>returncode\<close>, and the two captured
  pipes (\<^verbatim>\<open>stdout=PIPE, stderr=PIPE, universal_newlines=True\<close>).
\<close>

record completed_process =
  returncode :: int
  stdout :: string
  stderr :: string

text \<open>
  The ways \<^verbatim>\<open>subprocess.run\<close> ends without a finished process to return: the
  program is not found, it may not be executed, the operating system refuses to start it
  for another reason, or the child has run and what it wrote to a captured pipe is not
  text in the encoding of the locale. Each raises its own exception;
  \<^verbatim>\<open>FileNotFoundError\<close> and \<^verbatim>\<open>PermissionError\<close> are subclasses of \<^verbatim>\<open>OSError\<close>,
  none of the four is a \<^verbatim>\<open>CalledProcessError\<close>.
\<close>

datatype run_failure =
    Program_not_found
  | Permission_denied
  | Other_os_error
  | Output_not_decodable

fun raised_by :: "run_failure \<Rightarrow> exc" where
  "raised_by Program_not_found = FileNotFoundError"
| "raised_by Permission_denied = PermissionError"
| "raised_by Other_os_error = OSError"
| "raised_by Output_not_decodable = UnicodeDecodeError"

text \<open>
  \<^verbatim>\<open>subprocess.run(cmd, ..., check=c)\<close>. The first argument is what came of the
  command: a failure, or the finished process. Only with \<^verbatim>\<open>check=True\<close> does a
  non-zero exit status raise \<^verbatim>\<open>CalledProcessError\<close>.
\<close>

definition sub_run :: "run_failure + completed_process \<Rightarrow> bool \<Rightarrow> exc + completed_process" where
  "sub_run spawned check =
     (case spawned of
        Inl f \<Rightarrow> Inl (raised_by f)
      | Inr p \<Rightarrow> if check \<and> returncode p \<noteq> 0 then Inl CalledProcessError else Inr p)"

text \<open>\<^verbatim>\<open>CompletedProcess.check_returncode\<close>.\<close>

definition check_returncode :: "completed_process \<Rightarrow> exc + unit" where
  "check_returncode p = (if returncode p \<noteq> 0 then Inl CalledProcessError else Inr ())"

section \<open>MetadataAcquisition\<close>

text \<open>
  The object of class \<^verbatim>\<open>MetadataAcquisition\<close>: the input path and the three flags
  that switch diagnostic printing on. What the methods print under these flags is not
  part of the model; the flags are kept because \<^verbatim>\<open>_term_return_file_info\<close> branches
  on one of them in its exception handler.
\<close>

record metadata_acquisition =
  in_path :: path
  print_all_info :: bool
  print_scan_time :: bool
  print_meta_value :: bool

text \<open>
  The probing tools only read: a probe environment maps a command line to what comes
  of running it.
\<close>

type_synonym probe_env = "arg list \<Rightarrow> run_failure + completed_process"

text \<open>
  \<^verbatim>\<open>_term_return_file_info(self, custom_cmd='')\<close> (MetadataAcquisition.py, 47-78).
  The default argument \<^verbatim>\<open>''\<close> is \<^term>\<open>None\<close>. The method returns a string, or
  \<^verbatim>\<open>False\<close> from its handler: \<^term>\<open>Inr\<close> the string, \<^term>\<open>Inl ()\<close> for
  \<^verbatim>\<open>False\<close>. In the handler \<^verbatim>\<open>info_process\<close> is not bound (the assignment
  is what raised), so the branch that prints \<^verbatim>\<open>info_process.stderr\<close> before
  \<^verbatim>\<open>quit()\<close> would raise \<^verbatim>\<open>UnboundLocalError\<close> there.
\<close>

definition info_cmd :: "metadata_acquisition \<Rightarrow> arg list option \<Rightarrow> arg list" where
  "info_cmd self custom_cmd =
     (case custom_cmd of
        None \<Rightarrow> [Str ''ffprobe'', Str ''-i'', Path (in_path self), Str ''-hide_banner'']
      | Some c \<Rightarrow> c)"

definition term_return_file_info ::
  "probe_env \<Rightarrow> metadata_acquisition \<Rightarrow> arg list option \<Rightarrow> (unit + string) outcome" where
  "term_return_file_info env self custom_cmd =
     (case sub_run (env (info_cmd self custom_cmd)) False of
           Inr info_process \<Rightarrow> Returned (Inr (stderr info_process @ stdout info_process))
         | Inl CalledProcessError \<Rightarrow>
             (if print_all_info self then Raised UnboundLocalError else Returned (Inl ()))
         | Inl e \<Rightarrow> Raised e)"

subsection \<open>String operations of Python used by the scanner\<close>

text \<open>
  \<^verbatim>\<open>text.split(keyword, 1)[1]\<close>: what follows the leftmost occurrence of the keyword,
  and \<^term>\<open>None\<close> when there is none (\<^verbatim>\<open>keyword in text\<close> is false). The keywords
  of this program are never empty.
\<close>

fun after_first :: "string \<Rightarrow> string \<Rightarrow> string option" where
  "after_first keyword [] = (if keyword = [] then Some [] else None)"
| "after_first keyword (c # cs) =
     (if take (length keyword) (c # cs) = keyword then Some (drop (length keyword) (c # cs))
      else after_first keyword cs)"

text \<open>\<^verbatim>\<open>s.split('\n')\<close>: the pieces between line feeds; never an empty list.\<close>

fun split_nl :: "string \<Rightarrow> string list" where
  "split_nl [] = [[]]"
| "split_nl (c # cs) =
     (if c = CHR ''\<newline>'' then [] # split_nl cs
      else (case split_nl cs of [] \<Rightarrow> [[c]] | l # ls \<Rightarrow> (c # l) # ls))"

text \<open>\<^verbatim>\<open>s.rstrip('\n')\<close>, \<^verbatim>\<open>s.lstrip('0')\<close> and \<^verbatim>\<open>s.split(',')[0]\<close>.\<close>

definition rstrip_nl :: "string \<Rightarrow> string" where
  "rstrip_nl s = rev (dropWhile (\<lambda>c. c = CHR ''\<newline>'') (rev s))"

definition lstrip_zero :: "string \<Rightarrow> string" where
  "lstrip_zero s = dropWhile (\<lambda>c. c = CHR ''0'') s"

definition before_comma :: "string \<Rightarrow> string" where
  "before_comma s = takeWhile (\<lambda>c. c \<noteq> CHR '','') s"

subsection \<open>The scanner \<^verbatim>\<open>_find_meta_value\<close>\<close>

text \<open>
  The local variables of \<^verbatim>\<open>_find_meta_value\<close> (MetadataAcquisition.py, 397-505) that
  live across iterations: \<^verbatim>\<open>keyword_value\<close>, \<^verbatim>\<open>complete_key_value\<close>, the list
  \<^verbatim>\<open>return_metadata_value_list\<close>, and whether
  \<^verbatim>\<open>file_info_after_keyword_list.clear()\<close> has run (after which the outer
  \<^verbatim>\<open>for\<close> finds its list empty and ends).
\<close>

record scan_state =
  keyword_value :: string
  complete_key_value :: string
  return_metadata_value_list :: "string option list"
  cleared :: bool

text \<open>
  Lines 479-490: the value of a tag once the line after it has been reached.
\<close>

definition complete_keyword_value :: "string \<Rightarrow> string \<Rightarrow> string" where
  "complete_keyword_value keyword kv =
     (let v = rstrip_nl kv;
          v = (if keyword = ''start'' \<or> keyword = ''Duration''
               then lstrip_zero (before_comma v) else v)
      in if keyword = ''Duration'' \<and> take 1 v = '':'' then drop 1 v else v)"

text \<open>
  The inner loop \<^verbatim>\<open>for info_line_str_index, info_line_str_value in
  enumerate(info_line_str)\<close> (lines 429-500). The third argument is the part of the line
  not yet visited, \<^verbatim>\<open>info_line_str[info_line_str_index:]\<close>: its head is
  \<^verbatim>\<open>info_line_str_value\<close>, and every slice the body takes starts at or after the
  current index. \<^term>\<open>last_line\<close> is the test
  \<^verbatim>\<open>info_after_key_list_index + 1 == len(file_info_after_keyword_list)\<close>. A
  \<^verbatim>\<open>break\<close> returns the state; falling through continues with the next character.
\<close>

fun scan_line :: "string \<Rightarrow> bool \<Rightarrow> string \<Rightarrow> scan_state \<Rightarrow> scan_state" where
  "scan_line keyword last_line [] st = st"
| "scan_line keyword last_line (c # cs) st =
     (if keyword = ''Stream'' then
        (if c = CHR ''#'' then
           st\<lparr>keyword_value := cs @ ''\<newline>'',
              complete_key_value := complete_key_value st @ cs @ ''\<newline>''\<rparr>
         else if take 6 (c # cs) = ''Stream'' then
           st\<lparr>keyword_value := drop 8 (c # cs) @ ''\<newline>'',
              complete_key_value := complete_key_value st @ drop 8 (c # cs) @ ''\<newline>''\<rparr>
         else if last_line then
           st\<lparr>return_metadata_value_list :=
                 return_metadata_value_list st @ [Some (complete_key_value st)],
              cleared := True\<rparr>
         else if c \<noteq> CHR '' '' then st
         else scan_line keyword last_line cs st)
      else if keyword = ''crop'' then
        (if take 4 (c # cs) = ''crop'' then
           st\<lparr>keyword_value := drop 5 (c # cs),
              return_metadata_value_list :=
                 return_metadata_value_list st @ [Some (drop 5 (c # cs))],
              cleared := True\<rparr>
         else scan_line keyword last_line cs st)
      else if c = CHR '':'' then
        st\<lparr>keyword_value := keyword_value st @ drop 2 (c # cs) @ ''\<newline>''\<rparr>
      else if c \<noteq> CHR '' '' then
        (if complete_keyword_value keyword (keyword_value st) = []
         then scan_line keyword last_line cs
                (st\<lparr>return_metadata_value_list := return_metadata_value_list st @ [None]\<rparr>)
         else st\<lparr>return_metadata_value_list :=
                   return_metadata_value_list st
                   @ [Some (complete_keyword_value keyword (keyword_value st))],
                 cleared := True\<rparr>)
      else scan_line keyword last_line cs st)"

text \<open>
  The outer loop \<^verbatim>\<open>for info_after_key_list_index, info_line_str in
  enumerate(file_info_after_keyword_list)\<close>: \<^term>\<open>n\<close> is the length of the list,
  \<^term>\<open>i\<close> the index of the line at the head of the lines still to visit.
\<close>

fun scan_lines :: "string \<Rightarrow> nat \<Rightarrow> nat \<Rightarrow> string list \<Rightarrow> scan_state \<Rightarrow> scan_state" where
  "scan_lines keyword n i [] st = st"
| "scan_lines keyword n i (l # ls) st =
     (let st' = scan_line keyword (i + 1 = n) l st
      in if cleared st' then st' else scan_lines keyword n (i + 1) ls st')"

text \<open>
  \<^verbatim>\<open>_find_meta_value(self, filter_output, keyword)\<close>. \<^verbatim>\<open>None\<close> when the keyword does
  not occur; otherwise the text after its first occurrence is cut into lines, a line
  \<^verbatim>\<open>' '\<close> is appended, the loops run, and the first element of
  \<^verbatim>\<open>return_metadata_value_list\<close> is returned (\<^verbatim>\<open>IndexError\<close> when the list is
  still empty).
\<close>

definition find_meta_value :: "string \<Rightarrow> string \<Rightarrow> string option outcome" where
  "find_meta_value filter_output keyword =
     (case after_first keyword filter_output of
        None \<Rightarrow> Returned None
      | Some rest \<Rightarrow>
          (let file_info_after_keyword_list = split_nl rest @ ['' ''];
               st = scan_lines keyword (length file_info_after_keyword_list) 0
                      file_info_after_keyword_list
                      \<lparr>keyword_value = [], complete_key_value = [],
                       return_metadata_value_list = [], cleared = False\<rparr>
           in case return_metadata_value_list st of
                [] \<Rightarrow> Raised IndexError
              | v # _ \<Rightarrow> Returned v))"

subsection \<open>\<^verbatim>\<open>return_metadata\<close>\<close>

text \<open>
  Each of the twenty parameters of \<^verbatim>\<open>return_metadata\<close> is \<^verbatim>\<open>False\<close> (the
  default), an \<^verbatim>\<open>int\<close> (the output position), or some other object, of which the
  method uses only the truth value (in \<^verbatim>\<open>all(...)\<close>).
\<close>

datatype pyarg = PFalse | PInt int | POther bool

record metadata_query =
  artist_author :: pyarg
  album :: pyarg
  description :: pyarg
  lyrics :: pyarg
  genre :: pyarg
  composer :: pyarg
  track_num :: pyarg
  disc_num :: pyarg
  date :: pyarg
  start_offset :: pyarg
  comment :: pyarg
  title :: pyarg
  duration :: pyarg
  performer :: pyarg
  max_volume :: pyarg
  first_aud_strm_info :: pyarg
  first_vid_strm_info :: pyarg
  every_stream_info :: pyarg
  crop_detect :: pyarg
  vid_dim :: pyarg

text \<open>The call with no argument given: every parameter at its default.\<close>

definition no_fields :: metadata_query where
  "no_fields =
     \<lparr>artist_author = PFalse, album = PFalse, description = PFalse, lyrics = PFalse,
      genre = PFalse, composer = PFalse, track_num = PFalse, disc_num = PFalse,
      date = PFalse, start_offset = PFalse, comment = PFalse, title = PFalse,
      duration = PFalse, performer = PFalse, max_volume = PFalse,
      first_aud_strm_info = PFalse, first_vid_strm_info = PFalse,
      every_stream_info = PFalse, crop_detect = PFalse, vid_dim = PFalse\<rparr>"

text \<open>\<^verbatim>\<open>in_meta_value_list\<close> (lines 115-117).\<close>

definition in_meta_value_list :: "metadata_query \<Rightarrow> pyarg list" where
  "in_meta_value_list q =
     [artist_author q, album q, description q, lyrics q, genre q, composer q, track_num q,
      disc_num q, date q, start_offset q, comment q, title q, duration q, performer q,
      max_volume q, first_aud_strm_info q, first_vid_strm_info q, every_stream_info q,
      crop_detect q, vid_dim q]"

text \<open>
  \<^verbatim>\<open>meta_dict\<close> (lines 91-112) is built from pairs whose keys are the parameter
  values and whose values are the probe keywords. A Python \<^verbatim>\<open>dict\<close> built from
  pairs keeps, for equal keys, the value of the last pair; \<^verbatim>\<open>False == 0\<close>.
\<close>

definition meta_pairs :: "metadata_query \<Rightarrow> (pyarg \<times> string) list" where
  "meta_pairs q =
     [(artist_author q, ''artist''), (album q, ''album''), (description q, ''description''),
      (lyrics q, ''lyrics''), (genre q, ''genre''), (composer q, ''composer''),
      (track_num q, ''track''), (disc_num q, ''disc''), (date q, ''date''),
      (start_offset q, ''start''), (comment q, ''comment''), (title q, ''title''),
      (duration q, ''Duration''), (performer q, ''performer''),
      (max_volume q, ''max_volume''), (first_aud_strm_info q, ''Audio''),
      (first_vid_strm_info q, ''Video''), (every_stream_info q, ''Stream''),
      (crop_detect q, ''crop''), (vid_dim q, ''dimensions'')]"

fun key_int :: "pyarg \<Rightarrow> int option" where
  "key_int PFalse = Some 0"
| "key_int (PInt k) = Some k"
| "key_int (POther t) = None"

definition py_eq :: "pyarg \<Rightarrow> pyarg \<Rightarrow> bool" where
  "py_eq a b = (case (key_int a, key_int b) of (Some x, Some y) \<Rightarrow> x = y | _ \<Rightarrow> False)"

definition dict_get :: "(pyarg \<times> string) list \<Rightarrow> pyarg \<Rightarrow> string option" where
  "dict_get pairs k =
     (case filter (\<lambda>(k', v). py_eq k' k) pairs of [] \<Rightarrow> None | p # ps \<Rightarrow> Some (snd (last (p # ps))))"

fun truthy :: "pyarg \<Rightarrow> bool" where
  "truthy PFalse = False"
| "truthy (PInt k) = (k \<noteq> 0)"
| "truthy (POther t) = t"

text \<open>\<^verbatim>\<open>str(n)\<close> for a natural number, and the format \<^verbatim>\<open>f'{k:02d}'\<close>.\<close>

fun str_nat :: "nat \<Rightarrow> string" where
  "str_nat n =
     (if n < 10 then [''0123456789'' ! n]
      else str_nat (n div 10) @ [''0123456789'' ! (n mod 10)])"

declare str_nat.simps [simp del]

definition format_02d :: "int \<Rightarrow> string" where
  "format_02d k =
     (if k < 0 then CHR ''-'' # str_nat (nat (- k))
      else if k < 10 then CHR ''0'' # str_nat (nat k)
      else str_nat (nat k))"

text \<open>
  What the method reports and does to the outside, in order: the error messages it
  prints, the check that the input file exists, and the processes it spawns.
\<close>

datatype message =
    At_least_one_value
  | Only_int_or_False
  | Order_number_only_once int
  | Order_out_of_range int
  | Input_not_found
  | Input_not_a_file

datatype event = Printed message | File_check path | Spawned "arg list"

text \<open>
  The file system and the tools as \<^verbatim>\<open>MetadataAcquisition\<close> sees them: the probing
  tools only read, so a command line determines what comes back.
\<close>

record probe_world =
  spawn :: probe_env
  path_exists :: "path \<Rightarrow> bool"
  path_is_file :: "path \<Rightarrow> bool"
  posix :: bool

text \<open>
  Lines 130-140: the loop that validates the parameters and collects
  \<^verbatim>\<open>out_order_int_list\<close> and \<^verbatim>\<open>in_meta_keyword_list\<close>. \<^term>\<open>Quit\<close> after the
  message for a parameter that is neither an int nor \<^verbatim>\<open>False\<close>.
\<close>

fun collect_order ::
  "(pyarg \<times> string) list \<Rightarrow> pyarg list \<Rightarrow> int list \<Rightarrow> string list
     \<Rightarrow> (int list \<times> string list) outcome" where
  "collect_order meta_dict [] ints kws = Returned (ints, kws)"
| "collect_order meta_dict (PFalse # as) ints kws = collect_order meta_dict as ints kws"
| "collect_order meta_dict (POther t # as) ints kws = Quit"
| "collect_order meta_dict (PInt k # as) ints kws =
     (case dict_get meta_dict (PInt k) of
        None \<Rightarrow> Raised KeyError
      | Some w \<Rightarrow> collect_order meta_dict as (ints @ [k]) (kws @ [format_02d k @ w]))"

text \<open>Lines 151-159: the scan for duplicate output positions.\<close>

fun dup_scan :: "int list \<Rightarrow> (int \<rightharpoonup> nat) \<Rightarrow> int list \<Rightarrow> int list" where
  "dup_scan [] dup_int_scanned dupe_in_int = dupe_in_int"
| "dup_scan (in_int # rest) dup_int_scanned dupe_in_int =
     (case dup_int_scanned in_int of
        None \<Rightarrow> dup_scan rest (dup_int_scanned(in_int \<mapsto> 1)) dupe_in_int
      | Some c \<Rightarrow>
          dup_scan rest (dup_int_scanned(in_int \<mapsto> c + 1))
            (if c = 1 then dupe_in_int @ [in_int] else dupe_in_int))"

text \<open>\<^verbatim>\<open>_check_file_exists\<close> (lines 32-45).\<close>

definition check_file_exists :: "probe_world \<Rightarrow> metadata_acquisition \<Rightarrow> event list \<times> bool outcome" where
  "check_file_exists w self =
     (if \<not> path_exists w (in_path self)
      then ([File_check (in_path self), Printed Input_not_found], Quit)
      else if \<not> path_is_file w (in_path self)
      then ([File_check (in_path self), Printed Input_not_a_file], Quit)
      else ([File_check (in_path self)], Returned True))"

text \<open>
  A probe followed by a scan of its text: \<^verbatim>\<open>_term_return_file_info\<close> and then
  \<^verbatim>\<open>_find_meta_value\<close>. A \<^verbatim>\<open>False\<close> from the probe (which cannot happen) would
  make \<^verbatim>\<open>keyword in filter_output\<close> a \<^verbatim>\<open>TypeError\<close>.
\<close>

definition probe_and_find ::
  "probe_world \<Rightarrow> metadata_acquisition \<Rightarrow> arg list option \<Rightarrow> string
     \<Rightarrow> event list \<times> string option outcome" where
  "probe_and_find w self custom_cmd keyword =
     ([Spawned (info_cmd self custom_cmd)],
      case term_return_file_info (spawn w) self custom_cmd of
        Returned (Inr info) \<Rightarrow> find_meta_value info keyword
      | Returned (Inl u) \<Rightarrow> Raised TypeError
      | Quit \<Rightarrow> Quit
      | Raised e \<Rightarrow> Raised e)"

text \<open>The nested function \<^verbatim>\<open>calculate_metadata\<close> (lines 184-189).\<close>

definition calculate_metadata ::
  "probe_world \<Rightarrow> metadata_acquisition \<Rightarrow> string \<Rightarrow> string \<Rightarrow> string
     \<Rightarrow> event list \<times> string option outcome" where
  "calculate_metadata w self format_str filter_str output_keyword =
     probe_and_find w self
       (Some [Str ''ffmpeg'', Str ''-i'', Path (in_path self), Str format_str, Str filter_str,
              Str ''-f'', Str ''null'', Str (if posix w then ''/dev/null'' else ''NUL''),
              Str ''-hide_banner''])
       output_keyword"

text \<open>The body of the loop over \<^verbatim>\<open>out_keyword_sorted_list\<close> (lines 192-225).\<close>

definition current_key_value ::
  "probe_world \<Rightarrow> metadata_acquisition \<Rightarrow> string \<Rightarrow> event list \<times> string option outcome" where
  "current_key_value w self value_keyword =
     (if value_keyword = ''max_volume'' then
        calculate_metadata w self ''-af'' ''volumedetect'' ''max_volume''
      else if value_keyword = ''crop'' then
        calculate_metadata w self ''-vf'' ''cropdetect'' ''crop''
      else if value_keyword = ''Stream'' then probe_and_find w self None value_keyword
      else if value_keyword = ''Duration'' then
        probe_and_find w self
          (Some [Str ''ffmpeg'', Str ''-i'', Path (in_path self), Str ''-f'', Str ''null'', Str ''-''])
          value_keyword
      else
        (let return_value_cmd =
               [Str ''ffprobe'', Str ''-v'', Str ''quiet'', Str ''-show_entries'',
                Str (''format_tags='' @ value_keyword), Str ''-of'', Str ''default=nw=1:nk=1'',
                Path (in_path self)]
         in ([Spawned return_value_cmd],
             case term_return_file_info (spawn w) self (Some return_value_cmd) of
               Returned (Inr v) \<Rightarrow> Returned (if v = [] then None else Some (butlast v))
             | Returned (Inl u) \<Rightarrow> Raised TypeError
             | Quit \<Rightarrow> Quit
             | Raised e \<Rightarrow> Raised e)))"

text \<open>
  The loop itself. Its only variable that survives an iteration is
  \<^verbatim>\<open>current_key_value\<close>: \<^term>\<open>None\<close> while it has not been assigned.
\<close>

fun values_loop ::
  "probe_world \<Rightarrow> metadata_acquisition \<Rightarrow> string list \<Rightarrow> string option option
     \<Rightarrow> event list \<times> string option option outcome" where
  "values_loop w self [] cur = ([], Returned cur)"
| "values_loop w self (value_keyword # rest) cur =
     (case current_key_value w self value_keyword of
        (ev, Returned v) \<Rightarrow>
          (case values_loop w self rest (Some v) of (ev', r) \<Rightarrow> (ev @ ev', r))
      | (ev, Quit) \<Rightarrow> (ev, Quit)
      | (ev, Raised e) \<Rightarrow> (ev, Raised e))"

text \<open>
  \<^verbatim>\<open>return_metadata\<close> (lines 80-228). The statement
  \<^verbatim>\<open>metadata_value_list.append(current_key_value)\<close> of line 227 stands after the
  loop, at the indentation of the \<^verbatim>\<open>for\<close>: it runs once, and reads a variable that
  no iteration may have bound.
\<close>

definition return_metadata ::
  "probe_world \<Rightarrow> metadata_acquisition \<Rightarrow> metadata_query
     \<Rightarrow> event list \<times> string option list outcome" where
  "return_metadata w self q =
     (let ev0 = (if list_all truthy (in_meta_value_list q)
                 then [Printed At_least_one_value] else [])
      in case collect_order (meta_pairs q) (in_meta_value_list q) [] [] of
           Quit \<Rightarrow> (ev0 @ [Printed Only_int_or_False], Quit)
         | Raised e \<Rightarrow> (ev0, Raised e)
         | Returned (ints, kws) \<Rightarrow>
             (let in_meta_keyword_list = sort kws;
                  out_order_int_list = sort ints;
                  out_keyword_sorted_list = map (drop 2) in_meta_keyword_list
              in case dup_scan out_order_int_list Map.empty [] of
                   d # ds \<Rightarrow> (ev0 @ [Printed (Order_number_only_once d)], Quit)
                 | [] \<Rightarrow>
                    (case find (\<lambda>k. k < 1 \<or> k > int (length out_order_int_list))
                            out_order_int_list of
                       Some k \<Rightarrow> (ev0 @ [Printed (Order_out_of_range k)], Quit)
                     | None \<Rightarrow>
                        (case check_file_exists w self of
                           (ev1, Quit) \<Rightarrow> (ev0 @ ev1, Quit)
                         | (ev1, Raised e) \<Rightarrow> (ev0 @ ev1, Raised e)
                         | (ev1, Returned ok) \<Rightarrow>
                            (case values_loop w self out_keyword_sorted_list None of
                               (ev2, Quit) \<Rightarrow> (ev0 @ ev1 @ ev2, Quit)
                             | (ev2, Raised e) \<Rightarrow> (ev0 @ ev1 @ ev2, Raised e)
                             | (ev2, Returned None) \<Rightarrow>
                                 (ev0 @ ev1 @ ev2, Raised UnboundLocalError)
                             | (ev2, Returned (Some v)) \<Rightarrow>
                                 (ev0 @ ev1 @ ev2, Returned [v]))))))"

subsection \<open>\<^verbatim>\<open>return_stream_types\<close>\<close>

text \<open>
  \<^verbatim>\<open>str.splitlines()\<close>: a line ends at a line feed, a carriage return (with the line
  feed after it, if any), a vertical tab, a form feed, a file, group or record
  separator, or a next-line character; the ends are dropped, and no empty line is added
  after the last end. The first argument is the line read so far.
\<close>

definition line_boundary :: "char \<Rightarrow> bool" where
  "line_boundary c =
     (c \<in> set [CHR 0x0A, CHR 0x0B, CHR 0x0C, CHR 0x0D, CHR 0x1C, CHR 0x1D, CHR 0x1E, CHR 0x85])"

fun splitlines_from :: "string \<Rightarrow> string \<Rightarrow> string list" where
  "splitlines_from cur [] = (if cur = [] then [] else [cur])"
| "splitlines_from cur [c] = (if line_boundary c then [cur] else [cur @ [c]])"
| "splitlines_from cur (c # d # cs) =
     (if c = CHR 0x0D \<and> d = CHR 0x0A then cur # splitlines_from [] cs
      else if line_boundary c then cur # splitlines_from [] (d # cs)
      else splitlines_from (cur @ [c]) (d # cs))"

definition splitlines :: "string \<Rightarrow> string list" where
  "splitlines s = splitlines_from [] s"

text \<open>
  Lines 255-258: the loop over the whole line that looks for the first \<^verbatim>\<open>(\<close> and
  appends \<^verbatim>\<open>Subtitle=\<close> with the three characters after it. \<^term>\<open>None\<close>: the loop
  ended without appending.
\<close>

fun subtitle_descriptor :: "string \<Rightarrow> string option" where
  "subtitle_descriptor [] = None"
| "subtitle_descriptor (c # cs) =
     (if c = CHR ''('' then Some (''Subtitle='' @ take 3 cs) else subtitle_descriptor cs)"

text \<open>
  Lines 239-260: the loop \<^verbatim>\<open>for stream_str_index in range(len(strm))\<close>. The second
  argument is \<^verbatim>\<open>strm[stream_str_index:]\<close>, the third \<^verbatim>\<open>strm_types_list\<close>. The
  branches for Video, Audio and Data end the loop with \<^verbatim>\<open>break\<close>; the branch for
  Subtitle has a \<^verbatim>\<open>break\<close> only inside its own inner loop, so the scan of the line
  goes on after it. \<^verbatim>\<open>strm[-14:]\<close> is the whole line when it is shorter than 14.
\<close>

fun classify_from :: "string \<Rightarrow> string \<Rightarrow> string list \<Rightarrow> string list" where
  "classify_from strm [] strm_types_list = strm_types_list"
| "classify_from strm (c # cs) strm_types_list =
     (if take 5 (c # cs) = ''Video'' then
        (if drop (length strm - 14) strm = ''(attached pic)''
         then strm_types_list @ [''Artwork'']
         else strm_types_list @ [''Video''])
      else if take 5 (c # cs) = ''Audio'' then strm_types_list @ [''Audio'']
      else if take 4 (c # cs) = ''Data'' then strm_types_list @ [''Chapter'']
      else if take 8 (c # cs) = ''Subtitle'' then
        classify_from strm cs
          (case subtitle_descriptor strm of
             None \<Rightarrow> strm_types_list
           | Some d \<Rightarrow> strm_types_list @ [d])
      else classify_from strm cs strm_types_list)"

text \<open>The loop \<^verbatim>\<open>for strm in strm_types\<close> (line 238).\<close>

fun classify_lines :: "string list \<Rightarrow> string list \<Rightarrow> string list" where
  "classify_lines [] strm_types_list = strm_types_list"
| "classify_lines (strm # rest) strm_types_list =
     classify_lines rest (classify_from strm strm strm_types_list)"

text \<open>
  The classifier on a stream listing: lines 235-261, what \<^verbatim>\<open>return_stream_types\<close>
  does with the string that \<^verbatim>\<open>return_metadata(every_stream_info=1)[0]\<close> gave it.
\<close>

definition stream_types_of :: "string \<Rightarrow> string list" where
  "stream_types_of strm_types = classify_lines (splitlines strm_types) []"

text \<open>
  \<^verbatim>\<open>return_stream_types\<close> (lines 230-261). When the probe text has no
  \<^verbatim>\<open>Stream\<close> in it the listing is \<^verbatim>\<open>None\<close>, and \<^verbatim>\<open>None.splitlines()\<close> raises
  \<^verbatim>\<open>AttributeError\<close>.
\<close>

definition return_stream_types ::
  "probe_world \<Rightarrow> metadata_acquisition \<Rightarrow> event list \<times> string list outcome" where
  "return_stream_types w self =
     (case return_metadata w self (no_fields\<lparr>every_stream_info := PInt 1\<rparr>) of
        (ev, Returned []) \<Rightarrow> (ev, Raised IndexError)
      | (ev, Returned (None # vs)) \<Rightarrow> (ev, Raised AttributeError)
      | (ev, Returned (Some strm_types # vs)) \<Rightarrow> (ev, Returned (stream_types_of strm_types))
      | (ev, Quit) \<Rightarrow> (ev, Quit)
      | (ev, Raised e) \<Rightarrow> (ev, Raised e))"

section \<open>FileOperations: the timecode converter\<close>

text \<open>
  The object of class \<^verbatim>\<open>FileOperations\<close> as its constructor leaves it (lines 11-54):
  \<^verbatim>\<open>standard_out_path\<close> is \<^verbatim>\<open>out_dir\<close> joined with the name of the input, and
  \<^verbatim>\<open>print_ren_time\<close> is switched off together with \<^verbatim>\<open>print_success\<close>.
\<close>

record file_operations =
  fo_in_path :: path
  fo_out_dir :: path
  fo_standard_out_path :: path
  fo_print_success :: bool
  fo_print_err :: bool
  fo_print_ren_info :: bool
  fo_print_ren_time :: bool
  fo_open_after_ren :: bool

definition FileOperations ::
  "path \<Rightarrow> path \<Rightarrow> bool \<Rightarrow> bool \<Rightarrow> bool \<Rightarrow> bool \<Rightarrow> bool \<Rightarrow> file_operations" where
  "FileOperations in_p out_d p_success p_err p_ren_info p_ren_time open_after =
     \<lparr>fo_in_path = in_p, fo_out_dir = out_d,
      fo_standard_out_path = joinpath out_d (name in_p),
      fo_print_success = p_success, fo_print_err = p_err, fo_print_ren_info = p_ren_info,
      fo_print_ren_time = (if p_success then p_ren_time else False),
      fo_open_after_ren = open_after\<rparr>"

subsection \<open>\<^verbatim>\<open>datetime.strptime\<close> for the six formats of the converter\<close>

text \<open>
  \<^verbatim>\<open>strptime\<close> turns the format into a regular expression, one group per directive:
  \<^verbatim>\<open>%H\<close> is \<^verbatim>\<open>2[0-3]|[0-1]\d|\d\<close>, \<^verbatim>\<open>%M\<close> is \<^verbatim>\<open>[0-5]\d|\d\<close>, \<^verbatim>\<open>%S\<close> is
  \<^verbatim>\<open>6[0-1]|[0-5]\d|\d\<close>, \<^verbatim>\<open>%f\<close> is \<^verbatim>\<open>[0-9]{1,6}\<close>; every other character
  of the format stands for itself. It matches the expression at the start of the text
  and raises \<^verbatim>\<open>ValueError\<close> when there is no match or when text is left over.
\<close>

datatype directive = Dir_H | Dir_M | Dir_S | Dir_f | Lit char

definition is_digit :: "char \<Rightarrow> bool" where
  "is_digit c = (c \<in> set ''0123456789'')"

definition digit_val :: "char \<Rightarrow> nat" where
  "digit_val c = of_char c - 48"

definition int_of_digits :: "string \<Rightarrow> nat" where
  "int_of_digits s = foldl (\<lambda>a c. 10 * a + digit_val c) 0 s"

text \<open>
  The ways one alternative of two characters, or the alternative \<^verbatim>\<open>\d\<close>, matches
  at the start of a text: the matched text and the rest.
\<close>

fun two_chars :: "(char \<Rightarrow> bool) \<Rightarrow> (char \<Rightarrow> bool) \<Rightarrow> string \<Rightarrow> (string \<times> string) list" where
  "two_chars p1 p2 (c # d # r) = (if p1 c \<and> p2 d then [([c, d], r)] else [])"
| "two_chars p1 p2 s = []"

fun one_digit :: "string \<Rightarrow> (string \<times> string) list" where
  "one_digit (c # r) = (if is_digit c then [([c], r)] else [])"
| "one_digit [] = []"

text \<open>
  Every way a group matches at the start of a text, in the order in which the
  backtracking matcher tries them: the alternatives from left to right, and for the
  greedy \<^verbatim>\<open>[0-9]{1,6}\<close> the longest run first.
\<close>

fun re_group :: "directive \<Rightarrow> string \<Rightarrow> (string \<times> string) list" where
  "re_group Dir_H s =
     two_chars (\<lambda>c. c = CHR ''2'') (\<lambda>d. d \<in> set ''0123'') s
     @ two_chars (\<lambda>c. c \<in> set ''01'') is_digit s @ one_digit s"
| "re_group Dir_M s = two_chars (\<lambda>c. c \<in> set ''012345'') is_digit s @ one_digit s"
| "re_group Dir_S s =
     two_chars (\<lambda>c. c = CHR ''6'') (\<lambda>d. d \<in> set ''01'') s
     @ two_chars (\<lambda>c. c \<in> set ''012345'') is_digit s @ one_digit s"
| "re_group Dir_f s =
     map (\<lambda>k. (take k s, drop k s)) (rev [1 ..< Suc (min 6 (length (takeWhile is_digit s)))])"
| "re_group (Lit c) s = (case s of [] \<Rightarrow> [] | d # r \<Rightarrow> if d = c then [([c], r)] else [])"

text \<open>
  Every match of a whole format, in the matcher's order: the text of each group, and
  what is left of the input. The matcher reports the first.
\<close>

fun re_match :: "directive list \<Rightarrow> string \<Rightarrow> ((directive \<times> string) list \<times> string) list" where
  "re_match [] s = [([], s)]"
| "re_match (d # ds) s =
     concat (map (\<lambda>(m, r). map (\<lambda>(ms, r'). ((d, m) # ms, r')) (re_match ds r)) (re_group d s))"

record time_of_day =
  hour :: nat
  minute :: nat
  second :: nat
  microsecond :: nat

definition group_int :: "(directive \<times> string) list \<Rightarrow> directive \<Rightarrow> nat" where
  "group_int found_dict d = (case map_of found_dict d of None \<Rightarrow> 0 | Some m \<Rightarrow> int_of_digits m)"

text \<open>
  \<^verbatim>\<open>datetime.strptime(text, format).time()\<close>; \<^term>\<open>None\<close> is \<^verbatim>\<open>ValueError\<close>. The
  fraction is padded with zeros to six digits. The expression for \<^verbatim>\<open>%S\<close> accepts 60
  and 61, which the \<^verbatim>\<open>datetime\<close> constructor then refuses.
\<close>

definition strptime :: "directive list \<Rightarrow> string \<Rightarrow> time_of_day option" where
  "strptime fmt s =
     (case re_match fmt s of
        [] \<Rightarrow> None
      | (found_dict, rest) # others \<Rightarrow>
          if rest \<noteq> [] then None
          else if group_int found_dict Dir_S > 59 then None
          else Some \<lparr>hour = group_int found_dict Dir_H,
                     minute = group_int found_dict Dir_M,
                     second = group_int found_dict Dir_S,
                     microsecond =
                       (case map_of found_dict Dir_f of
                          None \<Rightarrow> 0
                        | Some f \<Rightarrow> int_of_digits (f @ replicate (6 - length f) CHR ''0''))\<rparr>)"

subsection \<open>\<^verbatim>\<open>_return_input_duration_in_sec\<close>\<close>

text \<open>
  Lines 1557-1575: the format is chosen from the length of the text and from whether it
  has a \<^verbatim>\<open>.\<close> in it; \<^term>\<open>None\<close> is the \<^verbatim>\<open>raise ValueError\<close> of the two
  \<^verbatim>\<open>else\<close> branches.
\<close>

definition timecode_format :: "string \<Rightarrow> directive list option" where
  "timecode_format duration_str =
     (if CHR ''.'' \<notin> set duration_str then
        (if length duration_str > 6 then Some [Dir_H, Lit CHR '':'', Dir_M, Lit CHR '':'', Dir_S]
         else if length duration_str > 3 then Some [Dir_M, Lit CHR '':'', Dir_S]
         else if length duration_str = 2 \<or> length duration_str = 1 then Some [Dir_S]
         else None)
      else
        (if length duration_str > 9
         then Some [Dir_H, Lit CHR '':'', Dir_M, Lit CHR '':'', Dir_S, Lit CHR ''.'', Dir_f]
         else if length duration_str > 5 then Some [Dir_M, Lit CHR '':'', Dir_S, Lit CHR ''.'', Dir_f]
         else if length duration_str > 3 then Some [Dir_S, Lit CHR ''.'', Dir_f]
         else None))"

text \<open>
  Lines 1588-1596: the text handed to \<^verbatim>\<open>float\<close>: the whole seconds, a point, and
  the microseconds, with one \<^verbatim>\<open>0\<close> put before them when they have fewer than six
  digits.
\<close>

definition length_sec :: "time_of_day \<Rightarrow> string" where
  "length_sec t =
     (if length (str_nat (microsecond t)) = 6
      then str_nat (hour t * 3600 + minute t * 60 + second t) @ ''.'' @ str_nat (microsecond t)
      else str_nat (hour t * 3600 + minute t * 60 + second t) @ ''.0'' @ str_nat (microsecond t))"

text \<open>
  \<^verbatim>\<open>float(text)\<close> for a text of digits, a point and digits. The model gives the
  number the text denotes; Python rounds it to the nearest binary64 number, which is the
  number itself whenever that is a binary64 number.
\<close>

definition float_of_decimal :: "string \<Rightarrow> rat" where
  "float_of_decimal s =
     (let whole = takeWhile (\<lambda>c. c \<noteq> CHR ''.'') s;
          frac = drop 1 (dropWhile (\<lambda>c. c \<noteq> CHR ''.'') s)
      in of_nat (int_of_digits whole) + of_nat (int_of_digits frac) / 10 ^ length frac)"

text \<open>
  \<^verbatim>\<open>_return_input_duration_in_sec(self, convert_str_timecode_to_sec='')\<close>
  (lines 1539-1599). With the default \<^verbatim>\<open>''\<close> the duration of the input file is
  probed; \<^verbatim>\<open>None\<close> and \<^verbatim>\<open>'N/A'\<close> return \<^verbatim>\<open>None\<close>; a \<^verbatim>\<open>ValueError\<close> from the choice
  of the format or from \<^verbatim>\<open>strptime\<close> is caught and ends in \<^verbatim>\<open>quit()\<close>.
\<close>

definition return_input_duration_in_sec ::
  "probe_world \<Rightarrow> file_operations \<Rightarrow> string \<Rightarrow> event list \<times> rat option outcome" where
  "return_input_duration_in_sec w self convert_str_timecode_to_sec =
     (case (if convert_str_timecode_to_sec \<noteq> []
            then ([], Returned [Some convert_str_timecode_to_sec])
            else return_metadata w
                   \<lparr>in_path = fo_in_path self, print_all_info = fo_print_ren_info self,
                    print_scan_time = fo_print_ren_time self, print_meta_value = False\<rparr>
                   (no_fields\<lparr>duration := PInt 1\<rparr>)) of
        (ev, Quit) \<Rightarrow> (ev, Quit)
      | (ev, Raised e) \<Rightarrow> (ev, Raised e)
      | (ev, Returned []) \<Rightarrow> (ev, Raised IndexError)
      | (ev, Returned (None # vs)) \<Rightarrow> (ev, Returned None)
      | (ev, Returned (Some d # vs)) \<Rightarrow>
          (if d = ''N/A'' then (ev, Returned None)
           else (case timecode_format d of
                   None \<Rightarrow> (ev, Quit)
                 | Some fmt \<Rightarrow>
                     (case strptime fmt d of
                        None \<Rightarrow> (ev, Quit)
                      | Some t \<Rightarrow> (ev, Returned (Some (float_of_decimal (length_sec t))))))))"

section \<open>Render\<close>

subsection \<open>The file system, and Python's list objects\<close>

text \<open>
  The part of the file system the renderer touches: a table from paths to what is
  there, a regular file with its contents or a directory. The empty path is the
  directory relative paths start from, and is always there.
\<close>

datatype node = File string | Dir

type_synonym filesystem = "(path \<times> node) list"

definition fs_exists :: "filesystem \<Rightarrow> path \<Rightarrow> bool" where
  "fs_exists fs p = (p = [] \<or> map_of fs p \<noteq> None)"

definition fs_is_file :: "filesystem \<Rightarrow> path \<Rightarrow> bool" where
  "fs_is_file fs p = (case map_of fs p of Some (File c) \<Rightarrow> True | _ \<Rightarrow> False)"

definition fs_is_dir :: "filesystem \<Rightarrow> path \<Rightarrow> bool" where
  "fs_is_dir fs p = (p = [] \<or> map_of fs p = Some Dir)"

definition fs_remove :: "filesystem \<Rightarrow> path \<Rightarrow> filesystem" where
  "fs_remove fs p = filter (\<lambda>(q, n). q \<noteq> p) fs"

text \<open>
  \<^verbatim>\<open>Path.mkdir()\<close>, \<^verbatim>\<open>Path.rmdir()\<close>, \<^verbatim>\<open>Path.unlink()\<close> and \<^verbatim>\<open>Path.rename(target)\<close>
  with the exceptions of \<^verbatim>\<open>pathlib\<close>: \<^verbatim>\<open>mkdir\<close> refuses a path that exists and a
  parent that does not; \<^verbatim>\<open>rmdir\<close> refuses a path that does not exist, a file, and a
  directory that is not empty; \<^verbatim>\<open>unlink\<close> refuses a path that does not exist and a
  directory; \<^verbatim>\<open>rename\<close> moves a file or a directory with what is below it, and
  replaces a file that is in the way.
\<close>

definition fs_mkdir :: "filesystem \<Rightarrow> path \<Rightarrow> exc + filesystem" where
  "fs_mkdir fs p =
     (if fs_exists fs p then Inl FileExistsError
      else if fs_is_file fs (butlast p) then Inl NotADirectoryError
      else if \<not> fs_is_dir fs (butlast p) then Inl FileNotFoundError
      else Inr ((p, Dir) # fs))"

definition fs_rmdir :: "filesystem \<Rightarrow> path \<Rightarrow> exc + filesystem" where
  "fs_rmdir fs p =
     (case map_of fs p of
        None \<Rightarrow> Inl FileNotFoundError
      | Some (File c) \<Rightarrow> Inl NotADirectoryError
      | Some Dir \<Rightarrow>
          if list_ex (\<lambda>(q, n). q \<noteq> [] \<and> butlast q = p) fs then Inl OSError
          else Inr (fs_remove fs p))"

definition fs_unlink :: "filesystem \<Rightarrow> path \<Rightarrow> exc + filesystem" where
  "fs_unlink fs p =
     (case map_of fs p of
        None \<Rightarrow> Inl FileNotFoundError
      | Some Dir \<Rightarrow> Inl OSError
      | Some (File c) \<Rightarrow> Inr (fs_remove fs p))"

definition fs_rename :: "filesystem \<Rightarrow> path \<Rightarrow> path \<Rightarrow> exc + filesystem" where
  "fs_rename fs src dst =
     (if map_of fs src = None then Inl FileNotFoundError
      else if \<not> fs_is_dir fs (butlast dst) then Inl FileNotFoundError
      else if map_of fs dst = Some Dir then Inl OSError
      else Inr (map (\<lambda>(q, n). if take (length src) q = src
                                then (dst @ drop (length src) q, n) else (q, n))
                  (fs_remove fs dst)))"

text \<open>
  \<^verbatim>\<open>PurePath.suffix\<close> and \<^verbatim>\<open>PurePath.stem\<close> of a file name: the suffix starts at
  the last point, unless that point is the first or the last character.
\<close>

definition rfind_dot :: "string \<Rightarrow> nat option" where
  "rfind_dot nm =
     (if CHR ''.'' \<in> set nm
      then Some (length nm - 1 - length (takeWhile (\<lambda>c. c \<noteq> CHR ''.'') (rev nm)))
      else None)"

definition suffix :: "string \<Rightarrow> string" where
  "suffix nm =
     (case rfind_dot nm of
        None \<Rightarrow> []
      | Some i \<Rightarrow> if 0 < i \<and> i < length nm - 1 then drop i nm else [])"

definition stem :: "string \<Rightarrow> string" where
  "stem nm =
     (case rfind_dot nm of
        None \<Rightarrow> nm
      | Some i \<Rightarrow> if 0 < i \<and> i < length nm - 1 then take i nm else nm)"

text \<open>
  A Python list is an object: two variables can hold the same list, and
  \<^verbatim>\<open>append\<close> and \<^verbatim>\<open>+=\<close> change it for both. The world holds the file system and
  the list objects, each under its reference; \<^term>\<open>next_ref\<close> is the next reference
  not in use.
\<close>

record world =
  files :: filesystem
  list_heap :: "nat \<Rightarrow> arg list"
  next_ref :: nat

definition new_list :: "arg list \<Rightarrow> world \<Rightarrow> nat \<times> world" where
  "new_list xs w = (next_ref w, w\<lparr>list_heap := (list_heap w)(next_ref w := xs), next_ref := Suc (next_ref w)\<rparr>)"

definition list_extend :: "nat \<Rightarrow> arg list \<Rightarrow> world \<Rightarrow> world" where
  "list_extend r xs w = w\<lparr>list_heap := (list_heap w)(r := list_heap w r @ xs)\<rparr>"

subsection \<open>The object and its surroundings\<close>

text \<open>
  \<^verbatim>\<open>self.in_path\<close> is one path or a list of paths; \<^verbatim>\<open>self.open_after_ren\<close> is
  \<^verbatim>\<open>True\<close>, the name of an application, or anything else (which opens nothing).
\<close>

datatype one_or_many = One path | Many "path list"

datatype open_setting = Open_Not | Open_True | Open_With string

record render =
  in_path_ren :: one_or_many
  out_paths_list :: "path list"
  ren_cmd :: nat
  print_success :: bool
  print_err :: bool
  print_ren_info :: bool
  print_ren_time :: bool
  open_after_ren :: open_setting

text \<open>
  The constructor (Render.py, 9-31): a single output path becomes a list of one, and
  \<^verbatim>\<open>self.ren_cmd = render_cmd\<close> keeps the caller's list object, not a copy of it.
\<close>

definition Render ::
  "one_or_many \<Rightarrow> one_or_many \<Rightarrow> nat \<Rightarrow> bool \<Rightarrow> bool \<Rightarrow> bool \<Rightarrow> bool \<Rightarrow> open_setting \<Rightarrow> render" where
  "Render input_path out_file_or_out_list render_cmd p_success p_err p_ren_info p_ren_time
     open_after =
     \<lparr>in_path_ren = input_path,
      out_paths_list = (case out_file_or_out_list of One p \<Rightarrow> [p] | Many ps \<Rightarrow> ps),
      ren_cmd = render_cmd, print_success = p_success, print_err = p_err,
      print_ren_info = p_ren_info, print_ren_time = p_ren_time,
      open_after_ren = open_after\<rparr>"

text \<open>
  What surrounds the program: the external tools (what comes of running a command
  line, a failure or the finished process, and the file system it leaves), whether
  paths are \<^verbatim>\<open>PosixPath\<close> or \<^verbatim>\<open>WindowsPath\<close>, and the two methods
  of \<^verbatim>\<open>FileOperations\<close> that the artwork branch of
  \<^verbatim>\<open>check_depend_then_ren_and_embed_original_metadata\<close> calls, taken as given
  operations on the world (\<^verbatim>\<open>extract_artwork\<close> returns a path or \<^verbatim>\<open>False\<close>).
\<close>

record surroundings =
  tools :: "arg list \<Rightarrow> filesystem \<Rightarrow> (run_failure + completed_process) \<times> filesystem"
  posix_paths :: bool
  extract_artwork :: "file_operations \<Rightarrow> world \<Rightarrow> path option outcome \<times> world"
  embed_artwork :: "file_operations \<Rightarrow> path \<Rightarrow> world \<Rightarrow> unit outcome \<times> world"

subsection \<open>\<^verbatim>\<open>run_terminal_cmd\<close>\<close>

text \<open>
  \<^verbatim>\<open>_check_open_after_ren\<close> (lines 217-250), the loop over the output paths. With
  every path a \<^verbatim>\<open>PosixPath\<close> or a \<^verbatim>\<open>WindowsPath\<close> the branch that quits is not
  reached.
\<close>

fun check_open_after_ren :: "surroundings \<Rightarrow> render \<Rightarrow> path list \<Rightarrow> world \<Rightarrow> bool outcome \<times> world" where
  "check_open_after_ren env self [] w = (Returned True, w)"
| "check_open_after_ren env self (out_path # rest) w =
     (case open_after_ren self of
        Open_Not \<Rightarrow> check_open_after_ren env self rest w
      | Open_True \<Rightarrow>
          (case tools env [Str (if posix_paths env then ''open'' else ''start''), Path out_path]
                  (files w) of
             (Inl f, fs) \<Rightarrow> (Raised (raised_by f), w\<lparr>files := fs\<rparr>)
           | (Inr p, fs) \<Rightarrow> check_open_after_ren env self rest (w\<lparr>files := fs\<rparr>))
      | Open_With app \<Rightarrow>
          if \<not> posix_paths env then (Returned False, w)
          else (case tools env [Str ''open'', Str ''-a'', Str app, Path out_path] (files w) of
                  (Inl f, fs) \<Rightarrow> (Raised (raised_by f), w\<lparr>files := fs\<rparr>)
                | (Inr p, fs) \<Rightarrow> check_open_after_ren env self rest (w\<lparr>files := fs\<rparr>)))"

text \<open>
  \<^verbatim>\<open>run_terminal_cmd(self, append_hide_banner=True, append_faststart=True)\<close>
  (lines 65-112). The two appends come first and change the list object
  \<^verbatim>\<open>self.ren_cmd\<close> refers to. Only \<^verbatim>\<open>CalledProcessError\<close> is caught, so the
  exception of a command that does not give a finished process escapes; the two tests
  \<^verbatim>\<open>self.out_paths_list[0].exists()\<close> raise \<^verbatim>\<open>IndexError\<close> on an empty list of
  outputs. What is printed, and the timer, are left out.
\<close>

definition run_terminal_cmd ::
  "surroundings \<Rightarrow> render \<Rightarrow> bool \<Rightarrow> bool \<Rightarrow> world \<Rightarrow> bool outcome \<times> world" where
  "run_terminal_cmd env self append_hide_banner append_faststart w =
     (let w1 = (if append_hide_banner then list_extend (ren_cmd self) [Str ''-hide_banner''] w
                else w);
          w2 = (if append_faststart
                then list_extend (ren_cmd self) [Str ''-movflags'', Str ''+faststart''] w1
                else w1)
      in case tools env (list_heap w2 (ren_cmd self)) (files w2) of
           (Inl f, fs) \<Rightarrow> (Raised (raised_by f), w2\<lparr>files := fs\<rparr>)
         | (Inr render_process, fs) \<Rightarrow>
             (let w3 = w2\<lparr>files := fs\<rparr>
              in case check_returncode render_process of
                   Inl e \<Rightarrow> (Returned False, w3)
                 | Inr u \<Rightarrow>
                     if print_ren_info self \<and> out_paths_list self = []
                     then (Raised IndexError, w3)
                     else if print_success self
                             \<and> \<not> (\<not> append_faststart \<and> \<not> append_hide_banner)
                             \<and> out_paths_list self = []
                     then (Raised IndexError, w3)
                     else (case check_open_after_ren env self (out_paths_list self) w3 of
                             (Returned b, w4) \<Rightarrow> (Returned True, w4)
                           | (Quit, w4) \<Rightarrow> (Quit, w4)
                           | (Raised e, w4) \<Rightarrow> (Raised e, w4))))"

subsection \<open>\<^verbatim>\<open>check_depend_then_ren\<close>\<close>

text \<open>The two loops of lines 45-61: \<^term>\<open>True\<close> when none of them quits.\<close>

definition inputs_ok :: "filesystem \<Rightarrow> path list \<Rightarrow> bool" where
  "inputs_ok fs input_path_list = list_all (\<lambda>p. fs_exists fs p \<and> fs_is_file fs p) input_path_list"

definition outputs_ok :: "filesystem \<Rightarrow> path list \<Rightarrow> bool" where
  "outputs_ok fs outs = list_all (\<lambda>p. \<not> fs_is_file fs p \<and> fs_exists fs (butlast p)) outs"

definition check_depend_then_ren ::
  "surroundings \<Rightarrow> render \<Rightarrow> bool \<Rightarrow> world \<Rightarrow> bool outcome \<times> world" where
  "check_depend_then_ren env self append_faststart w =
     (let input_path_list = (case in_path_ren self of One p \<Rightarrow> [p] | Many ps \<Rightarrow> ps)
      in if \<not> inputs_ok (files w) input_path_list then (Quit, w)
         else if \<not> outputs_ok (files w) (out_paths_list self) then (Quit, w)
         else run_terminal_cmd env self True append_faststart w)"

subsection \<open>\<^verbatim>\<open>FileOperations.copy_over_metadata\<close>\<close>

text \<open>
  FileOperations.py, 115-127: the command line is a new list object, and the nested
  \<^verbatim>\<open>Render(...).check_depend_then_ren()\<close> runs it; its result is dropped.
\<close>

definition copy_over_metadata ::
  "surroundings \<Rightarrow> file_operations \<Rightarrow> path \<Rightarrow> bool \<Rightarrow> world \<Rightarrow> unit outcome \<times> world" where
  "copy_over_metadata env self copy_this_metadata_file copy_chapters w =
     (let (ffmpeg_cmd, w1) =
            new_list
              ([Str ''ffmpeg'', Str ''-i'', Path (fo_in_path self), Str ''-i'',
                Path copy_this_metadata_file]
               @ (if \<not> copy_chapters then [Str ''-map_chapters'', Str ''-1''] else [])
               @ [Str ''-map'', Str ''0'', Str ''-c'', Str ''copy'', Str ''-map_metadata'',
                  Str ''1'', Path (fo_standard_out_path self)]) w
      in case check_depend_then_ren env
                (Render (One (fo_in_path self)) (One (fo_standard_out_path self)) ffmpeg_cmd
                   (fo_print_success self) (fo_print_err self) (fo_print_ren_info self)
                   (fo_print_ren_time self)
                   (if fo_open_after_ren self then Open_True else Open_Not))
                True w1 of
           (Returned b, w2) \<Rightarrow> (Returned (), w2)
         | (Quit, w2) \<Rightarrow> (Quit, w2)
         | (Raised e, w2) \<Rightarrow> (Raised e, w2))"

subsection \<open>\<^verbatim>\<open>check_depend_then_ren_and_embed_original_metadata\<close>\<close>

text \<open>A file system operation inside a method: an exception escapes with the world as it is.\<close>

definition fs_step ::
  "(filesystem \<Rightarrow> exc + filesystem) \<Rightarrow> world \<Rightarrow> (world \<Rightarrow> 'a outcome \<times> world)
     \<Rightarrow> 'a outcome \<times> world" where
  "fs_step act w continue =
     (case act (files w) of Inl e \<Rightarrow> (Raised e, w) | Inr fs \<Rightarrow> continue (w\<lparr>files := fs\<rparr>))"

text \<open>
  Lines 149-158, the branch \<^verbatim>\<open>if artwork is True\<close>, followed by what every pass
  through the loop body ends with (lines 159-160): the scratch directory is removed and
  the method returns \<^verbatim>\<open>True\<close>.
\<close>

definition artwork_then_cleanup ::
  "surroundings \<Rightarrow> render \<Rightarrow> bool \<Rightarrow> path \<Rightarrow> path \<Rightarrow> path \<Rightarrow> path \<Rightarrow> world
     \<Rightarrow> bool option outcome \<times> world" where
  "artwork_then_cleanup env self artwork in_meta_file out_path temp_dir temp_out_file w =
     (let cleanup = (\<lambda>w'. fs_step (\<lambda>fs. fs_rmdir fs temp_dir) w' (\<lambda>w''. (Returned (Some True), w'')))
      in if \<not> artwork then cleanup w
         else (case extract_artwork env
                      (FileOperations in_meta_file temp_dir False (print_ren_info self) False
                         False False) w of
                 (Quit, w1) \<Rightarrow> (Quit, w1)
               | (Raised e, w1) \<Rightarrow> (Raised e, w1)
               | (Returned None, w1) \<Rightarrow> cleanup w1
               | (Returned (Some temp_art), w1) \<Rightarrow>
                   if \<not> fs_exists (files w1) temp_art then cleanup w1
                   else (case embed_artwork env
                                (FileOperations out_path temp_dir False (print_ren_info self)
                                   False False False) temp_art w1 of
                           (Quit, w2) \<Rightarrow> (Quit, w2)
                         | (Raised e, w2) \<Rightarrow> (Raised e, w2)
                         | (Returned u, w2) \<Rightarrow>
                             fs_step (\<lambda>fs. fs_unlink fs temp_art) w2 (\<lambda>w3.
                             fs_step (\<lambda>fs. fs_unlink fs out_path) w3 (\<lambda>w4.
                             fs_step (\<lambda>fs. fs_rename fs temp_out_file out_path) w4 cleanup)))))"

text \<open>
  The body of the loop \<^verbatim>\<open>for out_path in self.out_paths_list\<close> (lines 136-160). It
  ends in \<^verbatim>\<open>return True\<close>, so only the first output is ever handled.
\<close>

definition embed_for_output ::
  "surroundings \<Rightarrow> render \<Rightarrow> bool \<Rightarrow> bool \<Rightarrow> path \<Rightarrow> path \<Rightarrow> world
     \<Rightarrow> bool option outcome \<times> world" where
  "embed_for_output env self artwork copy_chapters in_meta_file out_path w =
     (let temp_directory_to_embed_metadata =
            joinpath (butlast out_path) ''--temp_dir_to_embed_metadata_silently'';
          temp_out_file =
            joinpath temp_directory_to_embed_metadata
              (stem (name out_path) @ suffix (name out_path))
      in fs_step (\<lambda>fs. fs_mkdir fs temp_directory_to_embed_metadata) w (\<lambda>w1.
           case copy_over_metadata env
                  (FileOperations out_path temp_directory_to_embed_metadata False
                     (print_ren_info self) False False False)
                  in_meta_file copy_chapters w1 of
             (Quit, w2) \<Rightarrow> (Quit, w2)
           | (Raised e, w2) \<Rightarrow> (Raised e, w2)
           | (Returned u, w2) \<Rightarrow>
               if \<not> fs_exists (files w2) temp_out_file
               then fs_step (\<lambda>fs. fs_rmdir fs temp_directory_to_embed_metadata) w2
                      (artwork_then_cleanup env self artwork in_meta_file out_path
                         temp_directory_to_embed_metadata temp_out_file)
               else fs_step (\<lambda>fs. fs_unlink fs out_path) w2 (\<lambda>w3.
                    fs_step (\<lambda>fs. fs_rename fs temp_out_file out_path) w3
                      (artwork_then_cleanup env self artwork in_meta_file out_path
                         temp_directory_to_embed_metadata temp_out_file))))"

text \<open>
  \<^verbatim>\<open>check_depend_then_ren_and_embed_original_metadata(self, append_faststart=True,
  artwork=False, copy_chapters=False)\<close> (lines 114-164). The method returns
  \<^verbatim>\<open>True\<close>, \<^verbatim>\<open>False\<close>, or, with no output path at all, falls off its end and
  returns \<^verbatim>\<open>None\<close>.
\<close>

definition check_depend_then_ren_and_embed_original_metadata ::
  "surroundings \<Rightarrow> render \<Rightarrow> bool \<Rightarrow> bool \<Rightarrow> bool \<Rightarrow> world \<Rightarrow> bool option outcome \<times> world" where
  "check_depend_then_ren_and_embed_original_metadata env self append_faststart artwork
     copy_chapters w =
     (case check_depend_then_ren env self append_faststart w of
        (Quit, w1) \<Rightarrow> (Quit, w1)
      | (Raised e, w1) \<Rightarrow> (Raised e, w1)
      | (Returned out_file_exists_result, w1) \<Rightarrow>
          (case in_path_ren self of
             Many [] \<Rightarrow> (Raised IndexError, w1)
           | Many (in_meta_file # ps) \<Rightarrow>
               if out_file_exists_result
               then (case out_paths_list self of
                       [] \<Rightarrow> (Returned None, w1)
                     | out_path # outs \<Rightarrow>
                         embed_for_output env self artwork copy_chapters in_meta_file out_path w1)
               else (Returned (Some False), w1)
           | One in_meta_file \<Rightarrow>
               if out_file_exists_result
               then (case out_paths_list self of
                       [] \<Rightarrow> (Returned None, w1)
                     | out_path # outs \<Rightarrow>
                         embed_for_output env self artwork copy_chapters in_meta_file out_path w1)
               else (Returned (Some False), w1)))"

section \<open>The stream policy in the words of the specification\<close>

text \<open>
  What a line of probe text contributes to the stream listing: a line whose first
  character after the padding is \<^verbatim>\<open>#\<close> gives what follows the \<^verbatim>\<open>#\<close>, a line that
  begins there with the word \<^verbatim>\<open>Stream\<close> gives what follows \<^verbatim>\<open>Stream #\<close>, and every
  other line is not a stream line.
\<close>

definition stream_line_content :: "string \<Rightarrow> string option" where
  "stream_line_content l =
     (case dropWhile (\<lambda>c. c = CHR '' '') l of
        [] \<Rightarrow> None
      | c # cs \<Rightarrow>
          if c = CHR ''#'' then Some cs
          else if take 6 (c # cs) = ''Stream'' then Some (drop 8 (c # cs))
          else None)"

text \<open>The listing made of every stream line among the lines, each closed by a line feed.\<close>

definition listing_of_stream_lines :: "string list \<Rightarrow> string" where
  "listing_of_stream_lines ls =
     concat (map (\<lambda>l. case stream_line_content l of None \<Rightarrow> [] | Some s \<Rightarrow> s @ ''\<newline>'') ls)"

text \<open>
  The specification's reading: the scan stops at the first line that is not a stream
  line, and nothing after that line contributes.
\<close>

definition listing_up_to_first_other_line :: "string list \<Rightarrow> string" where
  "listing_up_to_first_other_line ls =
     listing_of_stream_lines (takeWhile (\<lambda>l. stream_line_content l \<noteq> None) ls)"

section \<open>Stream lines in the words of the specification\<close>

text \<open>
  One of the four words the classifier looks for starts the text; one of the three that
  end the scan of a line starts the text.
\<close>

definition marker_at :: "string \<Rightarrow> bool" where
  "marker_at s =
     (take 5 s = ''Video'' \<or> take 5 s = ''Audio'' \<or> take 4 s = ''Data''
      \<or> take 8 s = ''Subtitle'')"

definition closing_marker_at :: "string \<Rightarrow> bool" where
  "closing_marker_at s = (take 5 s = ''Video'' \<or> take 5 s = ''Audio'' \<or> take 4 s = ''Data'')"

text \<open>None of the four words starts at one of the first \<^term>\<open>n\<close> positions of the line.\<close>

definition no_marker_before :: "nat \<Rightarrow> string \<Rightarrow> bool" where
  "no_marker_before n l = list_all (\<lambda>k. \<not> marker_at (drop k l)) [0 ..< n]"

text \<open>None of Video, Audio and Data occurs in the line.\<close>

definition no_closing_marker :: "string \<Rightarrow> bool" where
  "no_closing_marker l = list_all (\<lambda>k. \<not> closing_marker_at (drop k l)) [0 ..< length l]"

text \<open>A text that \<^verbatim>\<open>splitlines\<close> leaves in one piece.\<close>

definition one_line :: "string \<Rightarrow> bool" where
  "one_line l = list_all (\<lambda>c. \<not> line_boundary c) l"

section \<open>Diagnostic text in the words of the specification\<close>

text \<open>
  A line that begins another entry of the diagnostic text: its first character other
  than a space is not a colon. (A line of spaces and then a colon continues the value of
  the entry before it; an empty line, or a line of spaces, is passed over.)
\<close>

definition starts_next_entry :: "string \<Rightarrow> bool" where
  "starts_next_entry l =
     (case dropWhile (\<lambda>c. c = CHR '' '') l of [] \<Rightarrow> False | c # cs \<Rightarrow> c \<noteq> CHR '':'')"

section \<open>Scenarios\<close>

text \<open>
  A render whose patch pass produces nothing. The directory \<^verbatim>\<open>d\<close> holds the input
  \<^verbatim>\<open>in.mp4\<close>; the command is \<^verbatim>\<open>ffmpeg -i d/in.mp4 d/out.mp4\<close>; the tool writes the
  file a primary command names last before the flags, and fails, writing nothing, on
  the command that copies metadata (the one with \<^verbatim>\<open>-map_metadata\<close>).
\<close>

definition scenario_tools ::
  "arg list \<Rightarrow> filesystem \<Rightarrow> (run_failure + completed_process) \<times> filesystem" where
  "scenario_tools cmd fs =
     (if Str ''-map_metadata'' \<in> set cmd
      then (Inr \<lparr>returncode = 1, stdout = [], stderr = ''Conversion failed!''\<rparr>, fs)
      else (Inr \<lparr>returncode = 0, stdout = [], stderr = []\<rparr>,
            ([''d'', ''out.mp4''], File ''rendered'') # fs))"

definition scenario_surroundings :: surroundings where
  "scenario_surroundings =
     \<lparr>tools = scenario_tools, posix_paths = True,
      extract_artwork = (\<lambda>f w. (Returned None, w)),
      embed_artwork = (\<lambda>f p w. (Returned (), w))\<rparr>"

definition scenario_world :: world where
  "scenario_world =
     \<lparr>files = [([''d''], Dir), ([''d'', ''in.mp4''], File ''original'')],
      list_heap = (\<lambda>r. []) (0 := [Str ''ffmpeg'', Str ''-i'', Path [''d'', ''in.mp4''],
                                     Path [''d'', ''out.mp4'']]),
      next_ref = 1\<rparr>"

definition scenario_render :: render where
  "scenario_render =
     Render (One [''d'', ''in.mp4'']) (One [''d'', ''out.mp4'']) 0 True True False True Open_Not"

text \<open>
  A file \<^verbatim>\<open>song.m4a\<close> with the tags title \<^verbatim>\<open>Blue\<close> and composer \<^verbatim>\<open>Ann\<close>:
  \<^verbatim>\<open>ffprobe -show_entries format_tags=...\<close> prints the value of the tag and a line
  feed, and nothing for any other tag.
\<close>

definition tagged_file :: probe_world where
  "tagged_file =
     \<lparr>spawn = (\<lambda>cmd.
        if Str ''format_tags=title'' \<in> set cmd
        then Inr \<lparr>returncode = 0, stdout = ''Blue\<newline>'', stderr = []\<rparr>
        else if Str ''format_tags=composer'' \<in> set cmd
        then Inr \<lparr>returncode = 0, stdout = ''Ann\<newline>'', stderr = []\<rparr>
        else Inr \<lparr>returncode = 0, stdout = [], stderr = []\<rparr>),
      path_exists = (\<lambda>p. p = [''song.m4a'']),
      path_is_file = (\<lambda>p. p = [''song.m4a'']),
      posix = True\<rparr>"

definition song :: metadata_acquisition where
  "song = \<lparr>in_path = [''song.m4a''], print_all_info = False, print_scan_time = False,
           print_meta_value = False\<rparr>"

text \<open>
  A file \<^verbatim>\<open>Duration.mp3\<close>, one minute and a half and a quarter of a second long:
  what \<^verbatim>\<open>ffmpeg -i Duration.mp3 -f null -\<close> writes to stderr names the file before
  it gives its duration.
\<close>

definition duration_named_file :: probe_world where
  "duration_named_file =
     \<lparr>spawn = (\<lambda>cmd. Inr \<lparr>returncode = 0, stdout = [],
                  stderr = ''Input #0, mp3, from 'Duration.mp3':\<newline>  Duration: 00:01:30.25, bitrate: 128 kb/s\<newline>    Stream #0:0: Audio: mp3, 44100 Hz, stereo, fltp, 128 kb/s\<newline>''\<rparr>),
      path_exists = (\<lambda>p. p = [''Duration.mp3'']),
      path_is_file = (\<lambda>p. p = [''Duration.mp3'']),
      posix = True\<rparr>"

section \<open>Properties\<close>

text \<open>
  C8. Whenever the probe process was spawned, \<^verbatim>\<open>_term_return_file_info\<close> returns the
  process's stderr followed by its stdout, whatever the exit status and whatever the
  flags; and under no environment at all does the method take the branch of its
  \<^verbatim>\<open>CalledProcessError\<close> handler (returning \<^verbatim>\<open>False\<close>, or printing on the way to
  \<^verbatim>\<open>quit()\<close>), because
  \<^verbatim>\<open>subprocess.run\<close> is called without \<^verbatim>\<open>check\<close> and so never raises it.
\<close>

lemma raised_by_not_caught:
  "raised_by f \<noteq> CalledProcessError" "raised_by f \<noteq> UnboundLocalError"
  by (cases f; simp)+

lemma term_return_file_info_cases:
  "term_return_file_info env self custom_cmd
     = (case env (info_cmd self custom_cmd) of
          Inl f \<Rightarrow> Raised (raised_by f)
        | Inr p \<Rightarrow> Returned (Inr (stderr p @ stdout p)))"
proof (cases "env (info_cmd self custom_cmd)")
  case (Inl f)
  then show ?thesis by (cases f) (simp_all add: term_return_file_info_def sub_run_def)
next
  case (Inr p)
  then show ?thesis by (simp add: term_return_file_info_def sub_run_def)
qed

theorem term_return_file_info_ignores_status:
  "(env (info_cmd self custom_cmd) = Inr p
      \<longrightarrow> term_return_file_info env self custom_cmd = Returned (Inr (stderr p @ stdout p)))
   \<and> sub_run spawned False \<noteq> Inl CalledProcessError
   \<and> term_return_file_info env self custom_cmd \<noteq> Returned (Inl ())
   \<and> term_return_file_info env self custom_cmd \<noteq> Raised UnboundLocalError
   \<and> term_return_file_info env self custom_cmd \<noteq> Quit"
  by (auto simp: term_return_file_info_cases sub_run_def raised_by_not_caught split: sum.splits)

theorem term_return_file_info_ignores_status_witness:
  "term_return_file_info
     (\<lambda>c. Inr \<lparr>returncode = 1, stdout = ''out'', stderr = ''err: ''\<rparr>)
     \<lparr>in_path = [''a.mp4''], print_all_info = True, print_scan_time = False,
      print_meta_value = False\<rparr> None
   = Returned (Inr ''err: out'')"
  using term_return_file_info_ignores_status
    [where env = "\<lambda>c. Inr \<lparr>returncode = 1, stdout = ''out'', stderr = ''err: ''\<rparr>"
       and custom_cmd = None
       and self = "\<lparr>in_path = [''a.mp4''], print_all_info = True, print_scan_time = False,
          print_meta_value = False\<rparr>"
       and p = "\<lparr>returncode = 1, stdout = ''out'', stderr = ''err: ''\<rparr>"]
  by simp

subsection \<open>The render command is changed in place\<close>

lemma check_open_after_ren_list_heap:
  "list_heap (snd (check_open_after_ren env self ps w)) = list_heap w"
proof (induction ps arbitrary: w)
  case Nil
  show ?case by simp
next
  case (Cons p ps)
  show ?case
    by (cases "open_after_ren self") (auto simp: Cons.IH split: sum.splits prod.splits)
qed

lemma run_terminal_cmd_list_heap:
  "list_heap (snd (run_terminal_cmd env self True True w))
     = (list_heap w)(ren_cmd self := list_heap w (ren_cmd self)
          @ [Str ''-hide_banner'', Str ''-movflags'', Str ''+faststart''])"
proof -
  let ?w2 = "list_extend (ren_cmd self) [Str ''-movflags'', Str ''+faststart'']
               (list_extend (ren_cmd self) [Str ''-hide_banner''] w)"
  have w2: "list_heap ?w2 = (list_heap w)(ren_cmd self := list_heap w (ren_cmd self)
          @ [Str ''-hide_banner'', Str ''-movflags'', Str ''+faststart''])"
    by (simp add: list_extend_def)
  have "list_heap (snd (run_terminal_cmd env self True True w)) = list_heap ?w2"
    unfolding run_terminal_cmd_def Let_def
    by (auto split: option.splits sum.splits outcome.splits prod.splits
             simp: check_open_after_ren_list_heap
             dest: arg_cong [where f = "\<lambda>r. list_heap (snd r)"])
  with w2 show ?thesis by simp
qed

text \<open>
  C9. A call of \<^verbatim>\<open>run_terminal_cmd\<close> with its default flags changes the list object
  that \<^verbatim>\<open>self.ren_cmd\<close> refers to: whatever the tool does and however the call ends,
  the list afterwards is the list before with \<^verbatim>\<open>-hide_banner\<close>, \<^verbatim>\<open>-movflags\<close>,
  \<^verbatim>\<open>+faststart\<close> at its end, so it differs from the list given to the constructor; a
  second call on the same object appends the three flags again. The process is
  spawned with the list as changed: when that command line gives no finished process,
  the call raises the exception \<^verbatim>\<open>subprocess.run\<close> raises for the failure
  (\<^verbatim>\<open>FileNotFoundError\<close> for a program that is not found) and leaves the changed list
  behind.
\<close>

theorem run_terminal_cmd_appends_in_place:
  "list_heap (snd (run_terminal_cmd env self True True w)) (ren_cmd self)
     = list_heap w (ren_cmd self) @ [Str ''-hide_banner'', Str ''-movflags'', Str ''+faststart'']
   \<and> list_heap (snd (run_terminal_cmd env self True True w)) (ren_cmd self)
       \<noteq> list_heap w (ren_cmd self)
   \<and> list_heap (snd (run_terminal_cmd env self True True
                (snd (run_terminal_cmd env self True True w)))) (ren_cmd self)
     = list_heap w (ren_cmd self)
       @ [Str ''-hide_banner'', Str ''-movflags'', Str ''+faststart'']
       @ [Str ''-hide_banner'', Str ''-movflags'', Str ''+faststart'']
   \<and> (tools env (list_heap w (ren_cmd self)
                  @ [Str ''-hide_banner'', Str ''-movflags'', Str ''+faststart'']) (files w)
          = (Inl f, fs)
        \<longrightarrow> run_terminal_cmd env self True True w
            = (Raised (raised_by f),
               w\<lparr>files := fs,
                 list_heap := (list_heap w)(ren_cmd self := list_heap w (ren_cmd self)
                    @ [Str ''-hide_banner'', Str ''-movflags'', Str ''+faststart''])\<rparr>))"
proof (intro conjI impI)
  show "list_heap (snd (run_terminal_cmd env self True True w)) (ren_cmd self)
     = list_heap w (ren_cmd self) @ [Str ''-hide_banner'', Str ''-movflags'', Str ''+faststart'']"
    by (simp add: run_terminal_cmd_list_heap)
  then show "list_heap (snd (run_terminal_cmd env self True True w)) (ren_cmd self)
       \<noteq> list_heap w (ren_cmd self)"
    by simp
  show "list_heap (snd (run_terminal_cmd env self True True
                (snd (run_terminal_cmd env self True True w)))) (ren_cmd self)
     = list_heap w (ren_cmd self)
       @ [Str ''-hide_banner'', Str ''-movflags'', Str ''+faststart'']
       @ [Str ''-hide_banner'', Str ''-movflags'', Str ''+faststart'']"
    by (simp add: run_terminal_cmd_list_heap)
next
  assume "tools env (list_heap w (ren_cmd self)
                  @ [Str ''-hide_banner'', Str ''-movflags'', Str ''+faststart'']) (files w)
          = (Inl f, fs)"
  then show "run_terminal_cmd env self True True w
            = (Raised (raised_by f),
               w\<lparr>files := fs,
                 list_heap := (list_heap w)(ren_cmd self := list_heap w (ren_cmd self)
                    @ [Str ''-hide_banner'', Str ''-movflags'', Str ''+faststart''])\<rparr>)"
    by (simp add: run_terminal_cmd_def list_extend_def)
qed

theorem run_terminal_cmd_appends_in_place_witness:
  "fst (run_terminal_cmd
          \<lparr>tools = (\<lambda>c fs. (Inr \<lparr>returncode = 0, stdout = [], stderr = []\<rparr>,
                               ([''out.mp4''], File ''rendered'') # fs)),
           posix_paths = True,
           extract_artwork = (\<lambda>f w. (Quit, w)), embed_artwork = (\<lambda>f p w. (Quit, w))\<rparr>
          (Render (One [''in.mp4'']) (One [''out.mp4'']) 0 True True False True Open_Not)
          True True
          \<lparr>files = [([''in.mp4''], File ''original'')],
           list_heap = (\<lambda>r. [Str ''ffmpeg'', Str ''-i'', Path [''in.mp4''], Path [''out.mp4'']]),
           next_ref = 1\<rparr>)
     = Returned True
   \<and> list_heap (snd (run_terminal_cmd
          \<lparr>tools = (\<lambda>c fs. (Inr \<lparr>returncode = 0, stdout = [], stderr = []\<rparr>,
                               ([''out.mp4''], File ''rendered'') # fs)),
           posix_paths = True,
           extract_artwork = (\<lambda>f w. (Quit, w)), embed_artwork = (\<lambda>f p w. (Quit, w))\<rparr>
          (Render (One [''in.mp4'']) (One [''out.mp4'']) 0 True True False True Open_Not)
          True True
          \<lparr>files = [([''in.mp4''], File ''original'')],
           list_heap = (\<lambda>r. [Str ''ffmpeg'', Str ''-i'', Path [''in.mp4''], Path [''out.mp4'']]),
           next_ref = 1\<rparr>)) 0
     = [Str ''ffmpeg'', Str ''-i'', Path [''in.mp4''], Path [''out.mp4''],
        Str ''-hide_banner'', Str ''-movflags'', Str ''+faststart'']
   \<and> run_terminal_cmd
          \<lparr>tools = (\<lambda>c fs. (Inl Program_not_found, fs)), posix_paths = True,
           extract_artwork = (\<lambda>f w. (Quit, w)), embed_artwork = (\<lambda>f p w. (Quit, w))\<rparr>
          (Render (One [''in.mp4'']) (One [''out.mp4'']) 0 True True False True Open_Not)
          True True
          \<lparr>files = [], list_heap = (\<lambda>r. [Str ''ffmpeg'']), next_ref = 1\<rparr>
     = (Raised FileNotFoundError,
        \<lparr>files = [],
         list_heap = (\<lambda>r. [Str ''ffmpeg''])
           (0 := [Str ''ffmpeg'', Str ''-hide_banner'', Str ''-movflags'', Str ''+faststart'']),
         next_ref = 1\<rparr>)"
proof -
  have runs: "fst (run_terminal_cmd
          \<lparr>tools = (\<lambda>c fs. (Inr \<lparr>returncode = 0, stdout = [], stderr = []\<rparr>,
                               ([''out.mp4''], File ''rendered'') # fs)),
           posix_paths = True,
           extract_artwork = (\<lambda>f w. (Quit, w)), embed_artwork = (\<lambda>f p w. (Quit, w))\<rparr>
          (Render (One [''in.mp4'']) (One [''out.mp4'']) 0 True True False True Open_Not)
          True True
          \<lparr>files = [([''in.mp4''], File ''original'')],
           list_heap = (\<lambda>r. [Str ''ffmpeg'', Str ''-i'', Path [''in.mp4''], Path [''out.mp4'']]),
           next_ref = 1\<rparr>)
     = Returned True"
    by (simp add: run_terminal_cmd_def Render_def check_returncode_def list_extend_def)
  show ?thesis
    using runs
      run_terminal_cmd_appends_in_place
        [where env = "\<lparr>tools = (\<lambda>c fs. (Inr \<lparr>returncode = 0, stdout = [], stderr = []\<rparr>,
                               ([''out.mp4''], File ''rendered'') # fs)),
           posix_paths = True,
           extract_artwork = (\<lambda>f w. (Quit, w)), embed_artwork = (\<lambda>f p w. (Quit, w))\<rparr>"
         and self = "Render (One [''in.mp4'']) (One [''out.mp4'']) 0 True True False True Open_Not"
         and w = "\<lparr>files = [([''in.mp4''], File ''original'')],
           list_heap = (\<lambda>r. [Str ''ffmpeg'', Str ''-i'', Path [''in.mp4''], Path [''out.mp4'']]),
           next_ref = 1\<rparr>"]
      run_terminal_cmd_appends_in_place
        [where env = "\<lparr>tools = (\<lambda>c fs. (Inl Program_not_found, fs)), posix_paths = True,
           extract_artwork = (\<lambda>f w. (Quit, w)), embed_artwork = (\<lambda>f p w. (Quit, w))\<rparr>"
         and self = "Render (One [''in.mp4'']) (One [''out.mp4'']) 0 True True False True Open_Not"
         and w = "\<lparr>files = [], list_heap = (\<lambda>r. [Str ''ffmpeg'']), next_ref = 1\<rparr>"
         and f = Program_not_found and fs = "[]"]
    by (simp add: Render_def)
qed

subsection \<open>The patch pass that produces nothing\<close>

text \<open>
  C1, at the scenario of the claim: the primary render succeeds and writes
  \<^verbatim>\<open>d/out.mp4\<close>, the patch pass leaves no copy in the scratch directory. The method
  then removes the scratch directory in the branch for the missing copy (line 145) and
  once more at the end of the loop body (line 159); the second \<^verbatim>\<open>rmdir\<close> finds no
  directory, and \<^verbatim>\<open>FileNotFoundError\<close> escapes instead of a result. The output file
  is still there, unchanged, and the scratch directory is gone.
\<close>

theorem embed_original_metadata_patch_missing:
  "fst (check_depend_then_ren scenario_surroundings scenario_render True scenario_world)
     = Returned True
   \<and> fst (check_depend_then_ren_and_embed_original_metadata scenario_surroundings
           scenario_render True False False scenario_world)
     = Raised FileNotFoundError
   \<and> map_of (files (snd (check_depend_then_ren_and_embed_original_metadata
              scenario_surroundings scenario_render True False False scenario_world)))
        [''d'', ''out.mp4'']
     = Some (File ''rendered'')
   \<and> map_of (files (snd (check_depend_then_ren_and_embed_original_metadata
              scenario_surroundings scenario_render True False False scenario_world)))
        [''d'', ''--temp_dir_to_embed_metadata_silently'']
     = None"
  by code_simp

subsection \<open>What \<^verbatim>\<open>return_metadata\<close> returns\<close>

text \<open>
  Whatever is asked for, a call that returns gives a list of one value: line 227
  appends once, after the loop.
\<close>

lemma return_metadata_one_value:
  "return_metadata w self q = (ev, Returned vs) \<Longrightarrow> length vs = 1"
  by (auto simp: return_metadata_def Let_def
           split: outcome.splits prod.splits list.splits option.splits if_splits)

text \<open>
  C2, at \<^verbatim>\<open>return_metadata(title=1, composer=2)\<close> on a file with both tags: both tags
  are probed, in the order of the positions, and the list returned holds the composer
  alone, not the title and then the composer.
\<close>

theorem return_metadata_two_fields:
  "return_metadata tagged_file song (no_fields\<lparr>title := PInt 1, composer := PInt 2\<rparr>)
   = ([File_check [''song.m4a''],
       Spawned [Str ''ffprobe'', Str ''-v'', Str ''quiet'', Str ''-show_entries'',
                Str ''format_tags=title'', Str ''-of'', Str ''default=nw=1:nk=1'',
                Path [''song.m4a'']],
       Spawned [Str ''ffprobe'', Str ''-v'', Str ''quiet'', Str ''-show_entries'',
                Str ''format_tags=composer'', Str ''-of'', Str ''default=nw=1:nk=1'',
                Path [''song.m4a'']]],
      Returned [Some ''Ann''])"
  by code_simp

text \<open>
  C3, at the call with all twenty parameters \<^verbatim>\<open>False\<close>: \<^verbatim>\<open>all(...)\<close> of twenty
  false values is false, so the message about at least one value is not printed, and
  nothing stops the method there. It goes on to the check that the input file exists,
  and for a file that exists it ends in \<^verbatim>\<open>UnboundLocalError\<close> at line 227, where
  \<^verbatim>\<open>current_key_value\<close> was never assigned.
\<close>

theorem return_metadata_no_fields:
  "return_metadata w self no_fields
   = (if \<not> path_exists w (in_path self)
      then ([File_check (in_path self), Printed Input_not_found], Quit)
      else if \<not> path_is_file w (in_path self)
      then ([File_check (in_path self), Printed Input_not_a_file], Quit)
      else ([File_check (in_path self)], Raised UnboundLocalError))"
  by (simp add: return_metadata_def no_fields_def in_meta_value_list_def meta_pairs_def
        check_file_exists_def)

subsection \<open>The stream listing\<close>

lemma scan_line_Stream:
  "scan_line ''Stream'' False l st =
     (case stream_line_content l of
        None \<Rightarrow> st
      | Some s \<Rightarrow> st\<lparr>keyword_value := s @ ''\<newline>'',
                     complete_key_value := complete_key_value st @ s @ ''\<newline>''\<rparr>)"
proof (induction l)
  case Nil
  show ?case by (simp add: stream_line_content_def)
next
  case (Cons c cs)
  show ?case
  proof (cases "c = CHR '' ''")
    case True
    with Cons show ?thesis by (simp add: stream_line_content_def)
  next
    case False
    then show ?thesis by (simp add: stream_line_content_def)
  qed
qed

lemma scan_line_Stream_fields:
  "complete_key_value (scan_line ''Stream'' False l st)
     = complete_key_value st @ listing_of_stream_lines [l]"
  "return_metadata_value_list (scan_line ''Stream'' False l st) = return_metadata_value_list st"
  "cleared (scan_line ''Stream'' False l st) = cleared st"
  by (simp_all add: scan_line_Stream listing_of_stream_lines_def split: option.splits)

lemma listing_of_stream_lines_Cons:
  "listing_of_stream_lines (l # ls) = listing_of_stream_lines [l] @ listing_of_stream_lines ls"
  by (simp add: listing_of_stream_lines_def)

lemma scan_lines_Stream:
  "\<not> cleared st \<Longrightarrow> i + length ls + 1 = n \<Longrightarrow>
   return_metadata_value_list (scan_lines ''Stream'' n i (ls @ ['' '']) st)
     = return_metadata_value_list st
       @ [Some (complete_key_value st @ listing_of_stream_lines ls)]"
proof (induction ls arbitrary: i st)
  case Nil
  then show ?case by (simp add: listing_of_stream_lines_def)
next
  case (Cons l ls)
  from Cons.prems have not_last: "(Suc i = n) = False" by auto
  have step: "scan_lines ''Stream'' n i (l # ls @ ['' '']) st
      = scan_lines ''Stream'' n (Suc i) (ls @ ['' '']) (scan_line ''Stream'' False l st)"
    using Cons.prems(1) by (simp add: not_last Let_def scan_line_Stream_fields del: scan_line.simps)
  have "return_metadata_value_list
          (scan_lines ''Stream'' n (Suc i) (ls @ ['' '']) (scan_line ''Stream'' False l st))
        = return_metadata_value_list (scan_line ''Stream'' False l st)
          @ [Some (complete_key_value (scan_line ''Stream'' False l st)
                   @ listing_of_stream_lines ls)]"
    using Cons.prems by (intro Cons.IH) (simp_all add: scan_line_Stream_fields)
  then show ?case
    by (simp add: step scan_line_Stream_fields listing_of_stream_lines_Cons [of l ls]
             del: scan_line.simps scan_lines.simps)
qed

text \<open>
  C4, as the code has it. With the keyword \<^verbatim>\<open>Stream\<close> the scan takes, from every
  line after the first occurrence of the keyword, what follows a leading \<^verbatim>\<open>#\<close> or a
  leading \<^verbatim>\<open>Stream #\<close>, and joins these with line feeds. A line that is neither only
  ends the scan of that line (the \<^verbatim>\<open>break\<close> of line 453 leaves the inner loop): the
  scan goes on with the next line and ends at the end of the text.
\<close>

theorem stream_listing_has_every_stream_line:
  assumes "after_first ''Stream'' filter_output = Some rest"
  shows "find_meta_value filter_output ''Stream''
           = Returned (Some (listing_of_stream_lines (split_nl rest)))"
proof -
  have "return_metadata_value_list
          (scan_lines ''Stream'' (length (split_nl rest @ ['' ''])) 0 (split_nl rest @ ['' ''])
             \<lparr>keyword_value = [], complete_key_value = [],
              return_metadata_value_list = [], cleared = False\<rparr>)
        = [Some (listing_of_stream_lines (split_nl rest))]"
    using scan_lines_Stream [of "\<lparr>keyword_value = [], complete_key_value = [],
              return_metadata_value_list = [], cleared = False\<rparr>" 0 "split_nl rest"
              "length (split_nl rest @ ['' ''])"]
    by simp
  with assms show ?thesis
    by (simp add: find_meta_value_def Let_def)
qed

theorem stream_listing_has_every_stream_line_witness:
  "find_meta_value ''Stream #0:0: Video: h264\<newline>    Metadata:\<newline>    Stream #0:1: Audio: aac'' ''Stream''
     = Returned (Some ''0:0: Video: h264\<newline>0:1: Audio: aac\<newline>'')"
  using stream_listing_has_every_stream_line
    [of "''Stream #0:0: Video: h264\<newline>    Metadata:\<newline>    Stream #0:1: Audio: aac''"
        "'' #0:0: Video: h264\<newline>    Metadata:\<newline>    Stream #0:1: Audio: aac''"]
  by (simp add: listing_of_stream_lines_def stream_line_content_def)

text \<open>
  C4 as stated fails: the line \<^verbatim>\<open>Metadata:\<close> is neither a continuation nor a stream
  marker, and the stream line after it is in the listing all the same.
\<close>

theorem stream_listing_does_not_stop_counterexample:
  "find_meta_value ''Stream #0:0: Video: h264\<newline>    Metadata:\<newline>    Stream #0:1: Audio: aac'' ''Stream''
     = Returned (Some ''0:0: Video: h264\<newline>0:1: Audio: aac\<newline>'')
   \<and> after_first ''Stream'' ''Stream #0:0: Video: h264\<newline>    Metadata:\<newline>    Stream #0:1: Audio: aac''
     = Some '' #0:0: Video: h264\<newline>    Metadata:\<newline>    Stream #0:1: Audio: aac''
   \<and> listing_up_to_first_other_line
        (split_nl '' #0:0: Video: h264\<newline>    Metadata:\<newline>    Stream #0:1: Audio: aac'')
     = ''0:0: Video: h264\<newline>''"
  by code_simp

subsection \<open>The classifier of stream lines\<close>

lemma splitlines_from_line:
  "one_line l \<Longrightarrow>
   splitlines_from cur (l @ CHR ''\<newline>'' # rest) = (cur @ l) # splitlines_from [] rest"
proof (induction l arbitrary: cur)
  case Nil
  show ?case by (cases rest) (simp_all add: line_boundary_def)
next
  case (Cons c l)
  then have c: "\<not> line_boundary c" and l: "one_line l" by (simp_all add: one_line_def)
  from c have "c \<noteq> CHR 0x0D" by (auto simp: line_boundary_def)
  moreover obtain d ds where "l @ CHR ''\<newline>'' # rest = d # ds" by (cases l) auto
  ultimately show ?case using c Cons.IH [OF l, of "cur @ [c]"] by simp
qed

lemma splitlines_from_last:
  "one_line l \<Longrightarrow> splitlines_from cur l = (if cur @ l = [] then [] else [cur @ l])"
proof (induction l arbitrary: cur)
  case Nil
  show ?case by simp
next
  case (Cons c l)
  then have c: "\<not> line_boundary c" and l: "one_line l" by (simp_all add: one_line_def)
  from c have cr: "c \<noteq> CHR 0x0D" by (auto simp: line_boundary_def)
  show ?case
  proof (cases l)
    case Nil
    with c show ?thesis by simp
  next
    case (Cons d ds)
    with c cr Cons.IH [OF l, of "cur @ [c]"] show ?thesis by simp
  qed
qed

lemma no_marker_before_iff:
  "no_marker_before n l \<longleftrightarrow> (\<forall>k<n. \<not> marker_at (drop k l))"
  by (auto simp: no_marker_before_def list_all_iff)

lemma no_marker_before_Cons:
  "no_marker_before (Suc n) (c # l) \<longleftrightarrow> \<not> marker_at (c # l) \<and> no_marker_before n l"
  unfolding no_marker_before_iff by (auto simp: less_Suc_eq_0_disj)

lemma classify_from_no_marker:
  "\<not> marker_at (c # cs) \<Longrightarrow> classify_from strm (c # cs) acc = classify_from strm cs acc"
  unfolding marker_at_def by (subst classify_from.simps) auto

lemma classify_from_Video:
  "classify_from strm (''Video'' @ r) acc
     = acc @ [if drop (length strm - 14) strm = ''(attached pic)'' then ''Artwork'' else ''Video'']"
  by simp

lemma classify_from_first_Video:
  "no_marker_before (length p) (p @ ''Video'' @ r) \<Longrightarrow>
   classify_from strm (p @ ''Video'' @ r) acc
     = acc @ [if drop (length strm - 14) strm = ''(attached pic)'' then ''Artwork'' else ''Video'']"
proof (induction p)
  case Nil
  show ?case using classify_from_Video [of strm r acc] by simp
next
  case (Cons c p)
  from Cons.prems have here: "\<not> marker_at (c # (p @ ''Video'' @ r))"
    and later: "no_marker_before (length p) (p @ ''Video'' @ r)"
    using no_marker_before_Cons [of "length p" c "p @ ''Video'' @ r"] by simp_all
  have "classify_from strm ((c # p) @ ''Video'' @ r) acc
          = classify_from strm (p @ ''Video'' @ r) acc"
    using classify_from_no_marker [OF here] by simp
  with Cons.IH [OF later] show ?case by simp
qed

text \<open>
  C7. A listing of two lines: in the first, \<^verbatim>\<open>Video\<close> is the first of the four words
  and the line does not end in \<^verbatim>\<open>(attached pic)\<close>; in the second, \<^verbatim>\<open>Video\<close> is the
  first of the four words and the line ends in \<^verbatim>\<open>(attached pic)\<close>. The classifier
  gives \<^verbatim>\<open>['Video', 'Artwork']\<close>, with or without a line feed after the second line.
\<close>

theorem stream_types_of_Video_then_attached_pic:
  assumes first_line: "l1 = p1 @ ''Video'' @ r1" "one_line l1"
      "no_marker_before (length p1) l1"
      "drop (length l1 - 14) l1 \<noteq> ''(attached pic)''"
    and second_line: "l2 = p2 @ ''Video'' @ r2 @ ''(attached pic)''" "one_line l2"
      "no_marker_before (length p2) l2"
  shows "stream_types_of (l1 @ ''\<newline>'' @ l2) = [''Video'', ''Artwork'']
       \<and> stream_types_of (l1 @ ''\<newline>'' @ l2 @ ''\<newline>'') = [''Video'', ''Artwork'']
       \<and> stream_types_of (l1 @ ''\<newline>'' @ l2) \<noteq> [''Video'', ''Video'']"
proof -
  have l1_ne: "l1 \<noteq> []" and l2_ne: "l2 \<noteq> []"
    using first_line(1) second_line(1) by simp_all
  have "drop (length (xs @ ''(attached pic)'') - 14) (xs @ ''(attached pic)'') = ''(attached pic)''"
    for xs :: string by simp
  from this [of "p2 @ ''Video'' @ r2"] have ends: "drop (length l2 - 14) l2 = ''(attached pic)''"
    using second_line(1) by simp
  have c1: "classify_from l1 l1 acc = acc @ [''Video'']" for acc
    using classify_from_first_Video [of p1 r1 l1 acc] first_line by simp
  have c2: "classify_from l2 l2 acc = acc @ [''Artwork'']" for acc
    using classify_from_first_Video [of p2 "r2 @ ''(attached pic)''" l2 acc] second_line ends
    by simp
  have s1: "splitlines (l1 @ CHR ''\<newline>'' # l2) = [l1, l2]"
    using splitlines_from_line [OF first_line(2), of "[]" l2]
      splitlines_from_last [OF second_line(2), of "[]"] l2_ne
    by (simp add: splitlines_def)
  have s2: "splitlines (l1 @ CHR ''\<newline>'' # l2 @ ''\<newline>'') = [l1, l2]"
    using splitlines_from_line [OF first_line(2), of "[]" "l2 @ ''\<newline>''"]
      splitlines_from_line [OF second_line(2), of "[]" "[]"]
    by (simp add: splitlines_def)
  show ?thesis
    by (simp add: stream_types_of_def s1 s2 c1 c2 del: classify_from.simps)
qed

theorem stream_types_of_Video_then_attached_pic_witness:
  "stream_types_of ''0:0(und): Video: h264, yuv420p\<newline>0:1: Video: mjpeg, yuvj420p (attached pic)''
     = [''Video'', ''Artwork'']"
  using stream_types_of_Video_then_attached_pic
    [of "''0:0(und): Video: h264, yuv420p''" "''0:0(und): ''" "'': h264, yuv420p''"
        "''0:1: Video: mjpeg, yuvj420p (attached pic)''" "''0:1: ''" "'': mjpeg, yuvj420p ''"]
  by (simp add: one_line_def line_boundary_def no_marker_before_def marker_at_def upt_rec)

lemma subtitle_descriptor_None:
  "CHR ''('' \<notin> set strm \<Longrightarrow> subtitle_descriptor strm = None"
  by (induction strm) auto

lemma no_closing_marker_iff:
  "no_closing_marker l \<longleftrightarrow> (\<forall>k<length l. \<not> closing_marker_at (drop k l))"
  by (auto simp: no_closing_marker_def list_all_iff)

lemma classify_from_no_closing_marker:
  "\<forall>k<length s. \<not> closing_marker_at (drop k s) \<Longrightarrow> subtitle_descriptor strm = None \<Longrightarrow>
   classify_from strm s acc = acc"
proof (induction s)
  case Nil
  show ?case by simp
next
  case (Cons c s)
  from Cons.prems(1) have here: "\<not> closing_marker_at (c # s)" by fastforce
  from Cons.prems(1) have later: "\<forall>k<length s. \<not> closing_marker_at (drop k s)" by fastforce
  have "classify_from strm (c # s) acc = classify_from strm s acc"
    using here Cons.prems(2) unfolding closing_marker_at_def
    by (subst classify_from.simps) auto
  with Cons.IH [OF later Cons.prems(2)] show ?case by simp
qed

lemma classify_lines_append:
  "classify_lines (xs @ ys) acc = classify_lines ys (classify_lines xs acc)"
  by (induction xs arbitrary: acc) simp_all

text \<open>
  C10, as the code has it. A line with no \<^verbatim>\<open>(\<close> in it and with none of the words
  \<^verbatim>\<open>Video\<close>, \<^verbatim>\<open>Audio\<close> and \<^verbatim>\<open>Data\<close>, such as a line whose only word of the four is
  \<^verbatim>\<open>Subtitle\<close>, appends nothing, and the result for the whole listing is the result
  for the listing without that line: the streams after it stand one place earlier.
\<close>

theorem subtitle_line_without_paren_is_dropped:
  assumes "CHR ''('' \<notin> set strm" and "no_closing_marker strm"
  shows "classify_from strm strm strm_types_list = strm_types_list
       \<and> classify_lines (before @ strm # after) strm_types_list
           = classify_lines (before @ after) strm_types_list"
proof -
  have "classify_from strm strm acc = acc" for acc
    using classify_from_no_closing_marker [of strm strm acc] assms
    by (simp add: no_closing_marker_iff subtitle_descriptor_None)
  then show ?thesis
    by (simp add: classify_lines_append del: classify_from.simps)
qed

theorem subtitle_line_without_paren_is_dropped_witness:
  "CHR ''('' \<notin> set ''0:2: Subtitle: subrip'' \<and> no_closing_marker ''0:2: Subtitle: subrip''
   \<and> classify_lines [''0:0: Video: h264'', ''0:2: Subtitle: subrip'', ''0:3: Audio: aac''] []
       = classify_lines [''0:0: Video: h264'', ''0:3: Audio: aac''] []"
  using subtitle_line_without_paren_is_dropped
    [where strm = "''0:2: Subtitle: subrip''" and before = "[''0:0: Video: h264'']"
       and after = "[''0:3: Audio: aac'']" and strm_types_list = "[]"]
  by (simp add: no_closing_marker_def closing_marker_at_def upt_rec)

text \<open>
  C10 as stated fails. The branch for \<^verbatim>\<open>Subtitle\<close> does not end the scan of the line,
  and the branches for \<^verbatim>\<open>Video\<close>, \<^verbatim>\<open>Audio\<close> and \<^verbatim>\<open>Data\<close> come first: a line that
  has the word \<^verbatim>\<open>Subtitle\<close> and no \<^verbatim>\<open>(\<close> still appends a descriptor when one of the
  other three words is in it, and then no later stream changes its place.
\<close>

theorem subtitle_line_with_other_word_counterexample:
  "after_first ''Subtitle'' ''0:2: Subtitle: dvb_teletext, Data'' = Some '': dvb_teletext, Data''
   \<and> CHR ''('' \<notin> set ''0:2: Subtitle: dvb_teletext, Data''
   \<and> classify_from ''0:2: Subtitle: dvb_teletext, Data'' ''0:2: Subtitle: dvb_teletext, Data'' []
       = [''Chapter'']
   \<and> stream_types_of ''0:0: Video: h264\<newline>0:2: Subtitle: dvb_teletext, Data\<newline>0:3: Audio: aac''
       = [''Video'', ''Chapter'', ''Audio'']
   \<and> stream_types_of ''0:0: Video: h264\<newline>0:3: Audio: aac'' = [''Video'', ''Audio'']"
  by code_simp

subsection \<open>The timecode converter\<close>

text \<open>
  C5, as the code has it. For a text that is given (not the empty default, which stands
  for the duration of the input file), that is not \<^verbatim>\<open>N/A\<close>, and that has no \<^verbatim>\<open>.\<close> in
  it, the length alone chooses the format: more than 6 characters are parsed as
  \<^verbatim>\<open>%H:%M:%S\<close>, 4 to 6 as \<^verbatim>\<open>%M:%S\<close>, 1 or 2 as \<^verbatim>\<open>%S\<close>, and 3 characters end
  in \<^verbatim>\<open>quit()\<close>, as does every text its format does not parse. \<^verbatim>\<open>5\<close> gives 5
  seconds, \<^verbatim>\<open>123\<close> ends in \<^verbatim>\<open>quit()\<close>.
\<close>

theorem timecode_without_point_format_by_length:
  assumes "CHR ''.'' \<notin> set d" and "d \<noteq> []" and "d \<noteq> ''N/A''"
  shows "return_input_duration_in_sec w self d =
           ([], case (if length d > 6
                      then strptime [Dir_H, Lit CHR '':'', Dir_M, Lit CHR '':'', Dir_S] d
                      else if length d > 3 then strptime [Dir_M, Lit CHR '':'', Dir_S] d
                      else if length d = 1 \<or> length d = 2 then strptime [Dir_S] d
                      else None) of
                  None \<Rightarrow> Quit
                | Some t \<Rightarrow> Returned (Some (float_of_decimal (length_sec t))))
       \<and> (length d = 3 \<longrightarrow> return_input_duration_in_sec w self d = ([], Quit))
       \<and> return_input_duration_in_sec w self ''5'' = ([], Returned (Some 5))
       \<and> return_input_duration_in_sec w self ''123'' = ([], Quit)"
proof -
  have five: "return_input_duration_in_sec w self ''5'' = ([], Returned (Some 5))"
    by code_simp
  have ungrouped: "return_input_duration_in_sec w self ''123'' = ([], Quit)"
    by code_simp
  from assms have "return_input_duration_in_sec w self d =
           ([], case (if length d > 6
                      then strptime [Dir_H, Lit CHR '':'', Dir_M, Lit CHR '':'', Dir_S] d
                      else if length d > 3 then strptime [Dir_M, Lit CHR '':'', Dir_S] d
                      else if length d = 1 \<or> length d = 2 then strptime [Dir_S] d
                      else None) of
                  None \<Rightarrow> Quit
                | Some t \<Rightarrow> Returned (Some (float_of_decimal (length_sec t))))"
    by (auto simp: return_input_duration_in_sec_def timecode_format_def split: option.splits)
  moreover from assms
  have "length d = 3 \<longrightarrow> return_input_duration_in_sec w self d = ([], Quit)"
    by (simp add: return_input_duration_in_sec_def timecode_format_def)
  ultimately show ?thesis using five ungrouped by simp
qed

theorem timecode_without_point_format_by_length_witness:
  "return_input_duration_in_sec tagged_file
     (FileOperations [''song.m4a''] [''out''] True True False False False) ''01:30''
   = ([], Returned (Some 90))"
proof -
  have parsed: "strptime [Dir_M, Lit CHR '':'', Dir_S] ''01:30''
                 = Some \<lparr>hour = 0, minute = Suc 0, second = 30, microsecond = 0\<rparr>"
    by code_simp
  have seconds: "float_of_decimal (length_sec \<lparr>hour = 0, minute = Suc 0, second = 30, microsecond = 0\<rparr>)
                  = 90"
    by code_simp
  show ?thesis
    using timecode_without_point_format_by_length
      [where d = "''01:30''" and w = tagged_file
         and self = "FileOperations [''song.m4a''] [''out''] True True False False False"]
    by (simp add: parsed seconds)
qed

text \<open>
  C5 as stated fails: \<^verbatim>\<open>N/A\<close>, which the probe prints for an input of unknown
  duration, has no \<^verbatim>\<open>.\<close> and three characters, and the converter returns \<^verbatim>\<open>None\<close>
  for it; it does not stop.
\<close>

theorem timecode_not_available_counterexample:
  "CHR ''.'' \<notin> set ''N/A'' \<and> length ''N/A'' = 3
   \<and> return_input_duration_in_sec tagged_file
        (FileOperations [''song.m4a''] [''out''] True True False False False) ''N/A''
      = ([], Returned None)"
  by (simp add: return_input_duration_in_sec_def)

subsection \<open>From the duration line to seconds\<close>

lemma replicate_numeral: "replicate (numeral k) x = x # replicate (pred_numeral k) x"
  by (simp add: numeral_eq_Suc)

lemma strptime_M_S_f:
  "strptime [Dir_M, Lit CHR '':'', Dir_S, Lit CHR ''.'', Dir_f] ''01:30.25''
     = Some \<lparr>hour = 0, minute = Suc 0, second = 30, microsecond = 250000\<rparr>"
  by (simp add: strptime_def group_int_def is_digit_def int_of_digits_def digit_val_def upt_rec
        replicate_numeral)

lemma length_sec_quarter:
  "length_sec \<lparr>hour = 0, minute = Suc 0, second = 30, microsecond = 250000\<rparr> = ''90.250000''"
  by (simp add: length_sec_def str_nat.simps)

lemma float_of_decimal_quarter: "float_of_decimal ''90.250000'' = 361 / 4"
  by (simp add: float_of_decimal_def int_of_digits_def digit_val_def)

lemma convert_quarter:
  "return_input_duration_in_sec w self ''01:30.25'' = ([], Returned (Some (361 / 4)))"
  by (simp add: return_input_duration_in_sec_def timecode_format_def strptime_M_S_f
        length_sec_quarter float_of_decimal_quarter)

lemma split_nl_not_Nil: "split_nl s \<noteq> []"
  by (induction s) (simp_all split: list.splits)

lemma split_nl_first_line:
  "CHR ''\<newline>'' \<notin> set p \<Longrightarrow> split_nl (p @ s) = (p @ hd (split_nl s)) # tl (split_nl s)"
  using split_nl_not_Nil [of s] by (induction p) (auto split: list.splits)

lemma dropWhile_append_all:
  "dropWhile P (xs @ ys) = (if \<forall>x\<in>set xs. P x then dropWhile P ys else dropWhile P xs @ ys)"
  by (induction xs) simp_all

lemma rstrip_nl_after:
  "\<exists>y. rstrip_nl (''00:01:30.25,'' @ x) = ''00:01:30.25,'' @ y"
proof -
  have "rstrip_nl (p @ [c] @ x) = p @ [c] @ (if \<forall>d\<in>set x. d = CHR ''\<newline>'' then [] else rstrip_nl x)"
    if "c \<noteq> CHR ''\<newline>''" for p c
    using that by (simp add: rstrip_nl_def dropWhile_append_all)
  from this [of "CHR '',''" "''00:01:30.25''"] show ?thesis by simp
qed

lemma complete_keyword_value_Duration:
  "complete_keyword_value ''Duration'' (''00:01:30.25,'' @ x) = ''01:30.25''"
proof -
  obtain y where "rstrip_nl (''00:01:30.25,'' @ x) = ''00:01:30.25,'' @ y"
    using rstrip_nl_after by blast
  then show ?thesis
    by (simp add: complete_keyword_value_def Let_def before_comma_def lstrip_zero_def)
qed

lemma starts_next_entry_simps:
  "starts_next_entry [] = False"
  "starts_next_entry (CHR '' '' # cs) = starts_next_entry cs"
  "starts_next_entry (CHR '':'' # cs) = False"
  "c \<noteq> CHR '' '' \<Longrightarrow> c \<noteq> CHR '':'' \<Longrightarrow> starts_next_entry (c # cs) = True"
  by (simp_all add: starts_next_entry_def)

lemma scan_line_Duration:
  assumes "keyword_value st = ''00:01:30.25,'' @ x"
  shows "(starts_next_entry l \<longrightarrow>
            return_metadata_value_list (scan_line ''Duration'' last_line l st)
              = return_metadata_value_list st @ [Some ''01:30.25'']
            \<and> cleared (scan_line ''Duration'' last_line l st))
       \<and> (\<not> starts_next_entry l \<longrightarrow>
            (\<exists>y. keyword_value (scan_line ''Duration'' last_line l st) = ''00:01:30.25,'' @ y)
            \<and> return_metadata_value_list (scan_line ''Duration'' last_line l st)
                = return_metadata_value_list st
            \<and> cleared (scan_line ''Duration'' last_line l st) = cleared st)"
proof (induction l)
  case Nil
  show ?case using assms by (simp add: starts_next_entry_simps)
next
  case (Cons c cs)
  have value_found: "complete_keyword_value ''Duration'' (keyword_value st) = ''01:30.25''"
    unfolding assms by (rule complete_keyword_value_Duration)
  consider (colon) "c = CHR '':''" | (space) "c = CHR '' ''"
    | (other) "c \<noteq> CHR '':''" "c \<noteq> CHR '' ''" by blast
  then show ?case
  proof cases
    case colon
    then show ?thesis using assms by (simp add: starts_next_entry_simps)
  next
    case space
    then show ?thesis using Cons.IH by (simp add: starts_next_entry_simps)
  next
    case other
    then show ?thesis using value_found by (simp add: starts_next_entry_simps)
  qed
qed

lemma scan_lines_Duration:
  "keyword_value st = ''00:01:30.25,'' @ x \<Longrightarrow> \<not> cleared st \<Longrightarrow>
   list_ex starts_next_entry ls \<Longrightarrow>
   return_metadata_value_list (scan_lines ''Duration'' n i ls st)
     = return_metadata_value_list st @ [Some ''01:30.25'']"
proof (induction ls arbitrary: st x i)
  case Nil
  then show ?case by simp
next
  case (Cons l ls)
  note step = scan_line_Duration [OF Cons.prems(1), of l "Suc i = n"]
  show ?case
  proof (cases "starts_next_entry l")
    case True
    with step show ?thesis by (simp del: scan_line.simps)
  next
    case False
    with step Cons.prems(2) obtain y where
      kv: "keyword_value (scan_line ''Duration'' (Suc i = n) l st) = ''00:01:30.25,'' @ y"
      and ret: "return_metadata_value_list (scan_line ''Duration'' (Suc i = n) l st)
                  = return_metadata_value_list st"
      and going: "\<not> cleared (scan_line ''Duration'' (Suc i = n) l st)"
      by auto
    from False Cons.prems(3) have later: "list_ex starts_next_entry ls" by simp
    show ?thesis
      using Cons.IH [OF kv going later, of "Suc i"] ret going
      by (simp del: scan_line.simps)
  qed
qed

lemma scan_lines_Duration_no_entry:
  "keyword_value st = ''00:01:30.25,'' @ x \<Longrightarrow> \<not> list_ex starts_next_entry ls \<Longrightarrow>
   return_metadata_value_list (scan_lines ''Duration'' n i ls st) = return_metadata_value_list st"
proof (induction ls arbitrary: st x i)
  case Nil
  then show ?case by simp
next
  case (Cons l ls)
  note step = scan_line_Duration [OF Cons.prems(1), of l "Suc i = n"]
  from Cons.prems(2) have here: "\<not> starts_next_entry l"
    and later: "\<not> list_ex starts_next_entry ls" by simp_all
  from here step obtain y where
    kv: "keyword_value (scan_line ''Duration'' (Suc i = n) l st) = ''00:01:30.25,'' @ y"
    and ret: "return_metadata_value_list (scan_line ''Duration'' (Suc i = n) l st)
                = return_metadata_value_list st"
    by auto
  show ?case
    using Cons.IH [OF kv later, of "Suc i"] ret
    by (cases "cleared (scan_line ''Duration'' (Suc i = n) l st)")
       (simp_all del: scan_line.simps)
qed

text \<open>
  C6, as the code has it. In a diagnostic text whose first \<^verbatim>\<open>Duration\<close> is followed by
  \<^verbatim>\<open>: 00:01:30.25,\<close> the scan for \<^verbatim>\<open>Duration\<close> gives \<^verbatim>\<open>01:30.25\<close> (the text up to
  the comma, without the leading zeros and the colon they leave) when a later line
  begins another entry, and raises \<^verbatim>\<open>IndexError\<close> when none does; the converter
  gives 90.25 seconds for \<^verbatim>\<open>01:30.25\<close>. 90.25 is a binary floating-point number, so
  \<^verbatim>\<open>float\<close> gives it exactly.
\<close>

theorem Duration_line_gives_seconds:
  assumes "after_first ''Duration'' filter_output = Some ('': 00:01:30.25,'' @ tail)"
  shows "(list_ex starts_next_entry (split_nl ('': 00:01:30.25,'' @ tail))
            \<longrightarrow> find_meta_value filter_output ''Duration'' = Returned (Some ''01:30.25''))
       \<and> (\<not> list_ex starts_next_entry (split_nl ('': 00:01:30.25,'' @ tail))
            \<longrightarrow> find_meta_value filter_output ''Duration'' = Raised IndexError)
       \<and> return_input_duration_in_sec w self ''01:30.25'' = ([], Returned (Some 90.25))"
proof -
  define rest where "rest = '': 00:01:30.25,'' @ tail"
  define first_line where "first_line = '': 00:01:30.25,'' @ hd (split_nl tail)"
  define ls where "ls = tl (split_nl tail)"
  define st0 where "st0 = \<lparr>keyword_value = [], complete_key_value = [],
                             return_metadata_value_list = [], cleared = False\<rparr>"
  define st1 where "st1 = scan_line ''Duration'' (Suc 0 = length (first_line # ls @ ['' ''])) first_line st0"
  have found: "after_first ''Duration'' filter_output = Some rest"
    using assms unfolding rest_def .
  have lines: "split_nl rest = first_line # ls"
    unfolding rest_def first_line_def ls_def
    by (rule split_nl_first_line) simp
  have first: "\<not> starts_next_entry first_line"
    by (simp add: first_line_def starts_next_entry_simps)
  have kv: "keyword_value st1 = ''00:01:30.25,'' @ hd (split_nl tail) @ ''\<newline>''"
    and going: "\<not> cleared st1" and none_yet: "return_metadata_value_list st1 = []"
    by (simp_all add: st1_def st0_def first_line_def)
  have scan: "return_metadata_value_list
          (scan_lines ''Duration'' (length (first_line # ls @ ['' ''])) 0
             (first_line # ls @ ['' '']) st0)
        = (if list_ex starts_next_entry (split_nl rest) then [Some ''01:30.25''] else [])"
  proof (cases "list_ex starts_next_entry (split_nl rest)")
    case True
    with first have later: "list_ex starts_next_entry (ls @ ['' ''])"
      by (simp add: lines)
    show ?thesis
      using scan_lines_Duration [OF kv going later, of "length (first_line # ls @ ['' ''])" "Suc 0"]
        going none_yet True
      by (simp add: st1_def del: scan_line.simps)
  next
    case False
    then have later: "\<not> list_ex starts_next_entry (ls @ ['' ''])"
      by (simp add: lines starts_next_entry_simps)
    show ?thesis
      using scan_lines_Duration_no_entry [OF kv later, of "length (first_line # ls @ ['' ''])" "Suc 0"]
        going none_yet False
      by (simp add: st1_def del: scan_line.simps)
  qed
  have "find_meta_value filter_output ''Duration''
          = (if list_ex starts_next_entry (split_nl rest) then Returned (Some ''01:30.25'')
             else Raised IndexError)"
    using scan
    by (simp add: find_meta_value_def Let_def found lines st0_def del: scan_line.simps
        scan_lines.simps)
  then have "(list_ex starts_next_entry (split_nl rest)
              \<longrightarrow> find_meta_value filter_output ''Duration'' = Returned (Some ''01:30.25''))
           \<and> (\<not> list_ex starts_next_entry (split_nl rest)
              \<longrightarrow> find_meta_value filter_output ''Duration'' = Raised IndexError)"
    by simp
  then show ?thesis
    unfolding rest_def using convert_quarter [of w self] by simp
qed

theorem Duration_line_gives_seconds_witness:
  "find_meta_value
     ''Input #0, mp3, from 'a.mp3':\<newline>  Duration: 00:01:30.25, start: 0.000000, bitrate: 128 kb/s\<newline>  Stream #0:0: Audio: mp3\<newline>''
     ''Duration'' = Returned (Some ''01:30.25'')
   \<and> return_input_duration_in_sec tagged_file
        (FileOperations [''song.m4a''] [''out''] True True False False False) ''01:30.25''
      = ([], Returned (Some 90.25))
   \<and> find_meta_value
       ''Input #0, mp3, from 'a.mp3':\<newline>  Duration: 00:01:30.25, start: 0.000000, bitrate: 128 kb/s''
       ''Duration'' = Raised IndexError"
  using Duration_line_gives_seconds
    [where filter_output = "''Input #0, mp3, from 'a.mp3':\<newline>  Duration: 00:01:30.25, start: 0.000000, bitrate: 128 kb/s\<newline>  Stream #0:0: Audio: mp3\<newline>''"
       and tail = "'' start: 0.000000, bitrate: 128 kb/s\<newline>  Stream #0:0: Audio: mp3\<newline>''"
       and w = tagged_file
       and self = "FileOperations [''song.m4a''] [''out''] True True False False False"]
    Duration_line_gives_seconds
    [where filter_output = "''Input #0, mp3, from 'a.mp3':\<newline>  Duration: 00:01:30.25, start: 0.000000, bitrate: 128 kb/s''"
       and tail = "'' start: 0.000000, bitrate: 128 kb/s''"
       and w = tagged_file
       and self = "FileOperations [''song.m4a''] [''out''] True True False False False"]
  by (simp add: starts_next_entry_def)

text \<open>
  C6 as stated fails. A text may hold the line \<^verbatim>\<open>Duration: 00:01:30.25, bitrate: ...\<close>
  and the scan for \<^verbatim>\<open>Duration\<close> not give \<^verbatim>\<open>01:30.25\<close>: the scan starts at the first
  \<^verbatim>\<open>Duration\<close> of the text, so with the word in the name of the file it gives
  \<^verbatim>\<open>None\<close>, and the converter, asked for the duration of that file, returns
  \<^verbatim>\<open>None\<close>; and with no line after the duration line the list of values stays
  empty and \<^verbatim>\<open>return_metadata_value_list[0]\<close> raises \<^verbatim>\<open>IndexError\<close>.
\<close>

theorem Duration_line_not_found_counterexample:
  "find_meta_value
     ''Input #0, mp3, from 'Duration.mp3':\<newline>  Duration: 00:01:30.25, bitrate: 128 kb/s\<newline>    Stream #0:0: Audio: mp3, 44100 Hz, stereo, fltp, 128 kb/s\<newline>''
     ''Duration'' = Returned None
   \<and> snd (return_input_duration_in_sec duration_named_file
            (FileOperations [''Duration.mp3''] [''out''] True True False False False) [])
      = Returned None
   \<and> find_meta_value
       ''Input #0, mp3, from 'a.mp3':\<newline>  Duration: 00:01:30.25, bitrate: 128 kb/s''
       ''Duration'' = Raised IndexError"
  by code_simp

end
